theory Spec2Isabelle
  imports Complex_Main "HOL-Library.Word"
begin

section \<open>JavaScript strings\<close>

text \<open>
  A JavaScript string is a sequence of 16-bit UTF-16 code units; \<open>===\<close> on strings is
  equality of these sequences, and a string is falsy exactly when it is empty.
  \<open>js\<close> embeds an ASCII literal of the source.
\<close>

type_synonym jschar = "16 word"
type_synonym jsstring = "jschar list"

definition js :: "string \<Rightarrow> jsstring" where
  "js s = map of_char s"

text \<open>
  ECMAScript WhiteSpace and LineTerminator code points: what \<open>String.prototype.trim\<close>
  strips and what \<open>\s\<close> matches in a regular expression.
\<close>

definition isWhiteSpace :: "jschar \<Rightarrow> bool" where
  "isWhiteSpace c =
     (c = 0x0009 \<or> c = 0x000A \<or> c = 0x000B \<or> c = 0x000C \<or> c = 0x000D \<or> c = 0x0020
      \<or> c = 0x00A0 \<or> c = 0x1680 \<or> (0x2000 \<le> c \<and> c \<le> 0x200A)
      \<or> c = 0x2028 \<or> c = 0x2029 \<or> c = 0x202F \<or> c = 0x205F \<or> c = 0x3000 \<or> c = 0xFEFF)"

definition trim :: "jsstring \<Rightarrow> jsstring" where
  "trim s = rev (dropWhile isWhiteSpace (rev (dropWhile isWhiteSpace s)))"

section \<open>JavaScript numbers\<close>

text \<open>
  A JavaScript number is an IEEE 754 binary64 value: \<open>NaN\<close>, an infinity with its sign,
  or a finite value, given here by its sign (\<open>True\<close> for negative) and its magnitude as
  the rational it denotes; \<open>Fin True 0\<close> is \<open>-0\<close>. Arithmetic computes the exact result
  and rounds it to the nearest binary64 value, ties to even.
\<close>

datatype jsnum = NaN | Inf bool | Fin bool rat

text \<open>The number of digits of a positive integer in base 2 and in base 10.\<close>

function bits :: "int \<Rightarrow> int" where
  "bits n = (if n \<le> 0 then 0 else 1 + bits (n div 2))"
  by pat_completeness auto
termination
  by (relation "measure nat") auto

function decimals :: "int \<Rightarrow> int" where
  "decimals n = (if n \<le> 0 then 0 else 1 + decimals (n div 10))"
  by pat_completeness auto
termination
  by (relation "measure nat") auto

definition pow :: "rat \<Rightarrow> int \<Rightarrow> rat" where
  "pow b e = (if 0 \<le> e then b ^ nat e else 1 / b ^ nat (- e))"

text \<open>
  For \<open>x > 0\<close>, the integer \<open>k\<close> with \<open>b ^ k \<le> x < b ^ (k + 1)\<close>, found from the
  lengths of numerator and denominator in base \<open>b\<close> (\<open>len\<close> counts digits in that base).
\<close>

definition floor_log :: "(int \<Rightarrow> int) \<Rightarrow> rat \<Rightarrow> rat \<Rightarrow> int" where
  "floor_log len b x =
     (case quotient_of x of (p, q) \<Rightarrow>
        let k = len p - len q
        in if pow b k \<le> x then k else k - 1)"

definition round_half_even :: "rat \<Rightarrow> int" where
  "round_half_even x =
     (let f = \<lfloor>x\<rfloor>; d = x - of_int f
      in if d < 1 / 2 then f else if 1 / 2 < d then f + 1 else if even f then f else f + 1)"

text \<open>
  Rounding a magnitude to binary64: 53 significant bits, least exponent \<open>-1074\<close>
  (subnormals), overflow (\<open>None\<close>) from \<open>2 ^ 1024\<close> on.
\<close>

definition binary64 :: "rat \<Rightarrow> rat option" where
  "binary64 a =
     (if a = 0 then Some 0
      else
        let e = floor_log bits 2 a;
            p = max (e - 52) (- 1074);
            r = of_int (round_half_even (a / pow 2 p)) * pow 2 p
        in if 1023 \<le> e \<and> pow 2 1024 \<le> r then None else Some r)"

definition number :: "bool \<Rightarrow> rat \<Rightarrow> jsnum" where
  "number neg a = (case binary64 a of None \<Rightarrow> Inf neg | Some r \<Rightarrow> Fin neg r)"

text \<open>A numeric literal of the source: the binary64 value nearest to the decimal written.\<close>

definition num :: "rat \<Rightarrow> jsnum" where
  "num q = number (q < 0) \<bar>q\<bar>"

definition signed :: "bool \<Rightarrow> rat \<Rightarrow> rat" where
  "signed neg a = (if neg then - a else a)"

fun js_mul :: "jsnum \<Rightarrow> jsnum \<Rightarrow> jsnum" where
  "js_mul NaN y = NaN"
| "js_mul x NaN = NaN"
| "js_mul (Inf s) (Inf t) = Inf (s \<noteq> t)"
| "js_mul (Inf s) (Fin t b) = (if b = 0 then NaN else Inf (s \<noteq> t))"
| "js_mul (Fin s a) (Inf t) = (if a = 0 then NaN else Inf (s \<noteq> t))"
| "js_mul (Fin s a) (Fin t b) = number (s \<noteq> t) (a * b)"

fun js_div :: "jsnum \<Rightarrow> jsnum \<Rightarrow> jsnum" where
  "js_div NaN y = NaN"
| "js_div x NaN = NaN"
| "js_div (Inf s) (Inf t) = NaN"
| "js_div (Inf s) (Fin t b) = Inf (s \<noteq> t)"
| "js_div (Fin s a) (Inf t) = Fin (s \<noteq> t) 0"
| "js_div (Fin s a) (Fin t b) =
     (if b = 0 then (if a = 0 then NaN else Inf (s \<noteq> t)) else number (s \<noteq> t) (a / b))"

fun js_sub :: "jsnum \<Rightarrow> jsnum \<Rightarrow> jsnum" where
  "js_sub NaN y = NaN"
| "js_sub x NaN = NaN"
| "js_sub (Inf s) (Inf t) = (if s = t then NaN else Inf s)"
| "js_sub (Inf s) (Fin t b) = Inf s"
| "js_sub (Fin s a) (Inf t) = Inf (\<not> t)"
| "js_sub (Fin s a) (Fin t b) =
     (let q = signed s a - signed t b
      in if q = 0 then Fin (a = 0 \<and> b = 0 \<and> s \<and> \<not> t) 0 else number (q < 0) \<bar>q\<bar>)"

text \<open>\<open>x < y\<close> on numbers: false when either is \<open>NaN\<close>; the two zeros are equal.\<close>

fun js_lt :: "jsnum \<Rightarrow> jsnum \<Rightarrow> bool" where
  "js_lt NaN y = False"
| "js_lt x NaN = False"
| "js_lt (Inf s) (Inf t) = (s \<and> \<not> t)"
| "js_lt (Inf s) (Fin t b) = s"
| "js_lt (Fin s a) (Inf t) = (\<not> t)"
| "js_lt (Fin s a) (Fin t b) = (signed s a < signed t b)"

text \<open>\<open>ToBoolean\<close> of a number, and \<open>x || y\<close> on numbers.\<close>

fun truthy :: "jsnum \<Rightarrow> bool" where
  "truthy NaN = False"
| "truthy (Inf s) = True"
| "truthy (Fin s a) = (a \<noteq> 0)"

definition js_or :: "jsnum \<Rightarrow> jsnum \<Rightarrow> jsnum" where
  "js_or x y = (if truthy x then x else y)"

text \<open>The finite numbers: neither \<open>NaN\<close> nor an infinity.\<close>

fun isFinite :: "jsnum \<Rightarrow> bool" where
  "isFinite NaN = False"
| "isFinite (Inf s) = False"
| "isFinite (Fin s a) = True"

subsection \<open>Number to string\<close>

function digits :: "int \<Rightarrow> jsstring" where
  "digits n = (if n < 10 then [of_int (48 + n)] else digits (n div 10) @ [of_int (48 + n mod 10)])"
  by pat_completeness auto
termination
  by (relation "measure nat") auto

text \<open>
  \<open>Number::toString\<close> picks the decimal \<open>c * 10 ^ t\<close> with the fewest digits that rounds to
  the number, the nearest one if there are several. With \<open>k\<close> digits the candidates are
  the two \<open>k\<close>-digit decimals around \<open>x\<close>; 17 digits always suffice.
\<close>

function shortest :: "nat \<Rightarrow> rat \<Rightarrow> int \<Rightarrow> int \<times> int" where
  "shortest k x n =
     (let sc = pow 10 (n - int k);
          lo = \<lfloor>x / sc\<rfloor>;
          hi = lo + 1;
          lo_ok = (binary64 (of_int lo * sc) = Some x);
          hi_ok = (binary64 (of_int hi * sc) = Some x);
          dlo = x - of_int lo * sc;
          dhi = of_int hi * sc - x
      in if lo_ok \<and> (\<not> hi_ok \<or> dlo < dhi \<or> (dlo = dhi \<and> even lo)) then (lo, n - int k)
         else if hi_ok then (hi, n - int k)
         else if 17 \<le> k then (round_half_even (x / sc), n - int k)
         else shortest (Suc k) x n)"
  by pat_completeness auto
termination
  by (relation "measure (\<lambda>(k, x, n). 17 - k)") auto

function strip_zeros :: "int \<Rightarrow> int \<Rightarrow> int \<times> int" where
  "strip_zeros c t = (if 0 < c \<and> c mod 10 = 0 then strip_zeros (c div 10) (t + 1) else (c, t))"
  by pat_completeness auto
termination
  by (relation "measure (\<lambda>(c, t). nat c)") auto

declare bits.simps [simp del] decimals.simps [simp del] digits.simps [simp del]
  shortest.simps [simp del] strip_zeros.simps [simp del]

definition format_decimal :: "jsstring \<Rightarrow> int \<Rightarrow> jsstring" where
  "format_decimal ds n =
     (let k = int (length ds)
      in if k \<le> n \<and> n \<le> 21 then ds @ replicate (nat (n - k)) 0x30
         else if 0 < n \<and> n \<le> 21 then take (nat n) ds @ [0x2E] @ drop (nat n) ds
         else if - 6 < n \<and> n \<le> 0 then [0x30, 0x2E] @ replicate (nat (- n)) 0x30 @ ds
         else
           let es = (if n - 1 < 0 then [0x2D] else [0x2B]) @ digits \<bar>n - 1\<bar>
           in if k = 1 then ds @ [0x65] @ es
              else take 1 ds @ [0x2E] @ drop 1 ds @ [0x65] @ es)"

definition Number_toString :: "jsnum \<Rightarrow> jsstring" where
  "Number_toString x =
     (case x of
        NaN \<Rightarrow> js ''NaN''
      | Inf neg \<Rightarrow> (if neg then js ''-Infinity'' else js ''Infinity'')
      | Fin neg a \<Rightarrow>
          if a = 0 then js ''0''
          else
            case shortest 1 a (floor_log decimals 10 a + 1) of (c, t) \<Rightarrow>
            case strip_zeros c t of (c', t') \<Rightarrow>
              (if neg then [0x2D] else []) @
              format_decimal (digits c') (t' + int (length (digits c'))))"

subsection \<open>\<open>parseFloat\<close>\<close>

definition isDigit :: "jschar \<Rightarrow> bool" where
  "isDigit c = (0x30 \<le> c \<and> c \<le> 0x39)"

definition digits_value :: "jsstring \<Rightarrow> int" where
  "digits_value ds = foldl (\<lambda>n c. 10 * n + (uint c - 48)) 0 ds"

text \<open>
  The optional exponent part after the mantissa: \<open>e\<close> or \<open>E\<close>, an optional sign, and at
  least one digit; anything else is not part of the number.
\<close>

definition exponent_part :: "jsstring \<Rightarrow> int" where
  "exponent_part r =
     (case r of
        [] \<Rightarrow> 0
      | c # r1 \<Rightarrow>
          if c = 0x65 \<or> c = 0x45 then
            (let (neg, r2) =
                   (case r1 of
                      [] \<Rightarrow> (False, [])
                    | d # r' \<Rightarrow> if d = 0x2D then (True, r') else if d = 0x2B then (False, r') else (False, r1));
                 ds = takeWhile isDigit r2
             in if ds = [] then 0
                else if neg then - digits_value ds else digits_value ds)
          else 0)"

text \<open>
  \<open>parseFloat\<close>: leading white space is skipped, then the longest prefix that is a
  \<open>StrDecimalLiteral\<close> (sign, \<open>Infinity\<close> or digits with an optional fraction and
  exponent) is converted; \<open>NaN\<close> when there is no such prefix.
\<close>

definition parseFloat :: "jsstring \<Rightarrow> jsnum" where
  "parseFloat string =
     (let s = dropWhile isWhiteSpace string;
          (neg, s1) =
            (case s of
               [] \<Rightarrow> (False, [])
             | c # r \<Rightarrow> if c = 0x2D then (True, r) else if c = 0x2B then (False, r) else (False, s))
      in if take 8 s1 = js ''Infinity'' then Inf neg
         else
           let ip = takeWhile isDigit s1;
               r1 = dropWhile isDigit s1;
               (fp, r2) =
                 (case r1 of
                    [] \<Rightarrow> ([], [])
                  | c # r \<Rightarrow>
                      if c = 0x2E then (takeWhile isDigit r, dropWhile isDigit r) else ([], r1))
           in if ip = [] \<and> fp = [] then NaN
              else
                number neg
                  (of_int (digits_value (ip @ fp)) * pow 10 (exponent_part r2 - int (length fp))))"


section \<open>Elements\<close>

text \<open>
  A \<open>DOMTokenList\<close> is an ordered set of tokens: \<open>add\<close> appends a token that is not
  there, \<open>remove\<close> deletes it.
\<close>

definition classList_contains :: "jsstring list \<Rightarrow> jsstring \<Rightarrow> bool" where
  "classList_contains cl tok = (tok \<in> set cl)"

definition classList_add :: "jsstring \<Rightarrow> jsstring list \<Rightarrow> jsstring list" where
  "classList_add tok cl = (if tok \<in> set cl then cl else cl @ [tok])"

definition classList_remove :: "jsstring \<Rightarrow> jsstring list \<Rightarrow> jsstring list" where
  "classList_remove tok cl = filter (\<lambda>t. t \<noteq> tok) cl"

text \<open>
  What the code reads and writes of an element of the page: its class list and the
  inline \<open>style.transform\<close>. An assignment to an inline style property hands the
  string to the CSS parser of the browser: a string that is a valid value of the
  property is stored, any other string is dropped and the property keeps what it
  held. The constant strings that the code assigns are all valid; the two strings
  built from numbers are treated where they are assigned. A floating element has its
  \<open>data-speed\<close> attribute in addition (\<open>element.dataset.speed\<close>, \<open>None\<close> for
  \<open>undefined\<close>).
\<close>

record element =
  classList :: "jsstring list"
  transform :: jsstring

record floating_element = element +
  dataset_speed :: "jsstring option"

text \<open>
  What the code reads of the window at the time of an event: \<open>window.scrollY\<close>,
  \<open>window.innerHeight\<close>, \<open>document.body.scrollHeight\<close>, and the top of the bounding
  rectangle of each fade-in element (by its position in \<open>fadeElements\<close>).
\<close>

record window =
  scrollY :: jsnum
  innerHeight :: jsnum
  scrollHeight :: jsnum
  rectTop :: "nat \<Rightarrow> jsnum"

section \<open>Animation manager (AnimationManager)\<close>

text \<open>
  The fields of the manager that the scroll pipeline uses, and the number of
  \<open>requestAnimationFrame\<close> callbacks that are pending.
\<close>

record animation_state =
  fadeElements :: "element list"
  floatingElements :: "floating_element list"
  isAnimating :: bool
  pendingFrames :: nat

text \<open>
  \<open>setupFloatingElements\<close>: \<open>element.dataset.speed || 0.1\<close> is the attribute when it is a
  non-empty string and the number \<open>0.1\<close> otherwise; assigning it to \<open>dataset.speed\<close> stores
  its string.
\<close>

definition setupFloatingElements :: "animation_state \<Rightarrow> animation_state" where
  "setupFloatingElements s =
     s\<lparr>floatingElements :=
         map (\<lambda>element.
                element\<lparr>dataset_speed :=
                  Some (case dataset_speed element of
                          None \<Rightarrow> Number_toString (num (1 / 10))
                        | Some v \<Rightarrow> if v \<noteq> [] then v else Number_toString (num (1 / 10)))\<rparr>)
           (floatingElements s)\<rparr>"

text \<open>The template literal of \<open>updateParallax\<close>.\<close>

definition transform_template :: "jsnum \<Rightarrow> jsnum \<Rightarrow> jsstring" where
  "transform_template translateY rotate' =
     js ''translateY('' @ Number_toString translateY @ js ''px) rotate('' @
     Number_toString rotate' @ js ''deg)''"

text \<open>\<open>parseFloat\<close> converts its argument to a string first; \<open>undefined\<close> becomes \<open>"undefined"\<close>.\<close>

definition parsed_speed :: "floating_element \<Rightarrow> jsnum" where
  "parsed_speed element =
     parseFloat (case dataset_speed element of None \<Rightarrow> js ''undefined'' | Some v \<Rightarrow> v)"

text \<open>
  The assignment of that string to \<open>element.style.transform\<close>. A number written by
  \<open>Number::toString\<close> is a CSS number exactly when it is finite (\<open>NaN\<close>, \<open>Infinity\<close> and
  \<open>-Infinity\<close> are not), and lengths and angles may be negative: the string is a valid
  transform exactly when both numbers are finite. Otherwise the browser drops it
  and the element keeps the transform it had.
\<close>

definition assign_transform :: "jsnum \<Rightarrow> jsnum \<Rightarrow> floating_element \<Rightarrow> floating_element" where
  "assign_transform translateY rotate' element =
     (if isFinite translateY \<and> isFinite rotate'
      then element\<lparr>transform := transform_template translateY rotate'\<rparr>
      else element)"

definition updateParallax :: "window \<Rightarrow> animation_state \<Rightarrow> animation_state" where
  "updateParallax w s =
     (let scrolled = scrollY w
      in s\<lparr>floatingElements :=
            map (\<lambda>element.
                   let speed = js_or (parsed_speed element) (num (1 / 10));
                       translateY = js_mul scrolled speed;
                       rotate' = js_mul scrolled (num (1 / 10))
                   in assign_transform translateY rotate' element)
              (floatingElements s)\<rparr>)"

definition checkForNewAnimations :: "window \<Rightarrow> animation_state \<Rightarrow> animation_state" where
  "checkForNewAnimations w s =
     s\<lparr>fadeElements :=
         map (\<lambda>(i, element).
                if \<not> classList_contains (classList element) (js ''visible'') then
                  let isVisible = js_lt (rectTop w i) (js_mul (innerHeight w) (num (4 / 5)))
                  in if isVisible
                     then element\<lparr>classList := classList_add (js ''visible'') (classList element)\<rparr>
                     else element
                else element)
           (enumerate 0 (fadeElements s))\<rparr>"

definition handleScroll :: "window \<Rightarrow> animation_state \<Rightarrow> animation_state" where
  "handleScroll w s =
     (if isAnimating s then s
      else
        let s1 = checkForNewAnimations w (updateParallax w (s\<lparr>isAnimating := True\<rparr>))
        in s1\<lparr>pendingFrames := Suc (pendingFrames s1)\<rparr>)"

definition handleResize :: "window \<Rightarrow> animation_state \<Rightarrow> animation_state" where
  "handleResize w s = updateParallax w s"

text \<open>
  The callback of the intersection observer: every entry names its target (a fade-in
  element, by position) and says whether it intersects; an intersecting target gets
  the class \<open>visible\<close>. (For a skill card the callback also starts the animation of
  the progress bar inside the card, which is another element.)
\<close>

fun observerCallback :: "(nat \<times> bool) list \<Rightarrow> animation_state \<Rightarrow> animation_state" where
  "observerCallback [] s = s"
| "observerCallback ((i, isIntersecting) # entries) s =
     observerCallback entries
       (if isIntersecting \<and> i < length (fadeElements s)
        then s\<lparr>fadeElements := (fadeElements s)
               [i := (fadeElements s ! i)
                  \<lparr>classList := classList_add (js ''visible'') (classList (fadeElements s ! i))\<rparr>]\<rparr>
        else s)"

text \<open>
  What the browser delivers to the manager: a scroll and a resize of the window as it
  then is, a pending animation frame (its callback clears \<open>isAnimating\<close>), and a
  notification of the intersection observer.
\<close>

datatype animation_event =
  Scroll window | Resize window | AnimationFrame | Intersection "(nat \<times> bool) list"

definition animation_step :: "animation_event \<Rightarrow> animation_state \<Rightarrow> animation_state" where
  "animation_step e s =
     (case e of
        Scroll w \<Rightarrow> handleScroll w s
      | Resize w \<Rightarrow> handleResize w s
      | AnimationFrame \<Rightarrow>
          if 0 < pendingFrames s then s\<lparr>isAnimating := False, pendingFrames := pendingFrames s - 1\<rparr>
          else s
      | Intersection entries \<Rightarrow> observerCallback entries s)"

fun animation_run :: "animation_event list \<Rightarrow> animation_state \<Rightarrow> animation_state" where
  "animation_run [] s = s"
| "animation_run (e # es) s = animation_run es (animation_step e s)"

text \<open>
  The constructor followed by \<open>init\<close> on the elements it finds: \<open>isAnimating = false\<close>,
  no frame requested yet, and \<open>setupFloatingElements\<close>.
\<close>

definition AnimationManager :: "animation_state \<Rightarrow> animation_state" where
  "AnimationManager page = setupFloatingElements (page\<lparr>isAnimating := False, pendingFrames := 0\<rparr>)"

section \<open>Performance manager (src/scripts/modules/performance.js)\<close>

text \<open>
  The progress bar is the element with id \<open>progress\<close> (\<open>None\<close> when the page has none);
  of it the code assigns \<open>style.width\<close>.
\<close>

record progress_bar =
  width :: jsstring

record performance_state =
  progressBar :: "progress_bar option"
  isAnimationsPaused :: bool

text \<open>
  The assignment of \<open>`${scrollPercent}%`\<close> to \<open>style.width\<close>. The string is a valid width
  exactly when the number is finite and not negative (\<open>-0\<close> is written \<open>0\<close>): \<open>NaN%\<close> and
  \<open>Infinity%\<close> are not percentages, and a width cannot be negative. Otherwise the
  browser drops it and the bar keeps the width it had.
\<close>

definition valid_width_percent :: "jsnum \<Rightarrow> bool" where
  "valid_width_percent percent = (isFinite percent \<and> \<not> js_lt percent (Fin False 0))"

definition assign_width :: "jsnum \<Rightarrow> progress_bar \<Rightarrow> progress_bar" where
  "assign_width percent bar =
     (if valid_width_percent percent then bar\<lparr>width := Number_toString percent @ js ''%''\<rparr>
      else bar)"

definition updateProgressBar :: "window \<Rightarrow> performance_state \<Rightarrow> performance_state" where
  "updateProgressBar w s =
     (case progressBar s of
        None \<Rightarrow> s
      | Some bar \<Rightarrow>
          let scrollTop = scrollY w;
              docHeight = js_sub (scrollHeight w) (innerHeight w);
              scrollPercent = js_mul (js_div scrollTop docHeight) (num 100)
          in s\<lparr>progressBar := Some (assign_width scrollPercent bar)\<rparr>)"

section \<open>Theme manager (src/scripts/modules/theme.js)\<close>

text \<open>
  The state the theme code reads and writes: the \<open>isDarkTheme\<close> field of the manager,
  the custom properties set inline on \<open>document.documentElement.style\<close>, the
  \<open>innerHTML\<close> of every \<open>.theme-toggle\<close> element in document order
  (\<open>document.querySelector\<close> returns the first), the position at which a child
  appended to the \<open>.nav\<close> element lands in that order (\<open>None\<close> when the page has
  no \<open>.nav\<close>), and \<open>localStorage\<close>. The easter-egg fields are not touched by the
  functions below and are left out.
\<close>

record theme_state =
  isDarkTheme :: bool
  rootStyle :: "jsstring \<rightharpoonup> jsstring"
  themeToggles :: "jsstring list"
  nav :: "nat option"
  localStorage :: "jsstring \<rightharpoonup> jsstring"

definition theme_key :: jsstring where
  "theme_key = js ''portfolio-theme''"

text \<open>The two icons: U+1F319 (a surrogate pair) and U+2600 U+FE0F.\<close>

definition moon :: jsstring where
  "moon = [0xD83C, 0xDF19]"

definition sun :: jsstring where
  "sun = [0x2600, 0xFE0F]"

definition setProperty :: "jsstring \<Rightarrow> jsstring \<Rightarrow> theme_state \<Rightarrow> theme_state" where
  "setProperty name v s = s\<lparr>rootStyle := (rootStyle s)(name \<mapsto> v)\<rparr>"

definition setToggleIcon :: "jsstring \<Rightarrow> theme_state \<Rightarrow> theme_state" where
  "setToggleIcon icon s =
     (case themeToggles s of
        [] \<Rightarrow> s
      | t # ts \<Rightarrow> s\<lparr>themeToggles := icon # ts\<rparr>)"

definition applyTheme :: "theme_state \<Rightarrow> theme_state" where
  "applyTheme s =
     (let s1 =
        (if isDarkTheme s then
           setProperty (js ''--color-light-gray'') (js ''#999999'')
            (setProperty (js ''--color-gray'') (js ''#666666'')
             (setProperty (js ''--color-white'') (js ''#FFFFFF'')
              (setProperty (js ''--color-tertiary'') (js ''#2A2A2A'')
               (setProperty (js ''--color-secondary'') (js ''#1A1A1A'')
                (setProperty (js ''--color-primary'') (js ''#0A0A0A'') s)))))
         else
           setProperty (js ''--color-light-gray'') (js ''#333333'')
            (setProperty (js ''--color-gray'') (js ''#666666'')
             (setProperty (js ''--color-white'') (js ''#0A0A0A'')
              (setProperty (js ''--color-tertiary'') (js ''#E0E0E0'')
               (setProperty (js ''--color-secondary'') (js ''#F5F5F5'')
                (setProperty (js ''--color-primary'') (js ''#FFFFFF'') s))))))
      in setToggleIcon (if isDarkTheme s then moon else sun) s1)"

definition loadThemePreference :: "theme_state \<Rightarrow> theme_state" where
  "loadThemePreference s =
     (case localStorage s theme_key of
        None \<Rightarrow> s
      | Some savedTheme \<Rightarrow>
          if savedTheme \<noteq> [] then applyTheme (s\<lparr>isDarkTheme := (savedTheme = js ''dark'')\<rparr>)
          else s)"

definition saveThemePreference :: "theme_state \<Rightarrow> theme_state" where
  "saveThemePreference s =
     s\<lparr>localStorage := (localStorage s)(theme_key \<mapsto> (if isDarkTheme s then js ''dark'' else js ''light''))\<rparr>"

definition toggleTheme :: "theme_state \<Rightarrow> theme_state" where
  "toggleTheme s = saveThemePreference (applyTheme (s\<lparr>isDarkTheme := \<not> isDarkTheme s\<rparr>))"

definition setTheme :: "jsstring \<Rightarrow> theme_state \<Rightarrow> theme_state" where
  "setTheme theme s =
     (if theme = js ''dark'' \<or> theme = js ''light''
      then saveThemePreference (applyTheme (s\<lparr>isDarkTheme := (theme = js ''dark'')\<rparr>))
      else s)"

definition getCurrentTheme :: "theme_state \<Rightarrow> jsstring" where
  "getCurrentTheme s = (if isDarkTheme s then js ''dark'' else js ''light'')"

text \<open>
  \<open>addThemeToggleButton\<close>: when the page has a \<open>.nav\<close>, a new button showing the moon
  is appended to it.
\<close>

definition addThemeToggleButton :: "theme_state \<Rightarrow> theme_state" where
  "addThemeToggleButton s =
     (case nav s of
        None \<Rightarrow> s
      | Some p \<Rightarrow> s\<lparr>themeToggles := take p (themeToggles s) @ [moon] @ drop p (themeToggles s),
                     nav := Some (Suc p)\<rparr>)"

text \<open>
  The constructor followed by \<open>init\<close>, on the page and storage it finds:
  \<open>isDarkTheme = true\<close>, then \<open>setupThemeToggle\<close> (its effect on the state is the
  button), then \<open>loadThemePreference\<close>.
\<close>

definition ThemeManager :: "theme_state \<Rightarrow> theme_state" where
  "ThemeManager page = loadThemePreference (addThemeToggleButton (page\<lparr>isDarkTheme := True\<rparr>))"

text \<open>A page without \<open>.nav\<close>, without inline custom properties and with empty storage.\<close>

definition blank_page :: theme_state where
  "blank_page = \<lparr>isDarkTheme = True, rootStyle = Map.empty, themeToggles = [], nav = None,
                  localStorage = Map.empty\<rparr>"

definition stored_page :: "jsstring \<Rightarrow> theme_state" where
  "stored_page v = blank_page\<lparr>localStorage := [theme_key \<mapsto> v]\<rparr>"

text \<open>
  For stating what \<open>applyTheme\<close> leaves behind: the custom properties of each branch, the
  last one set first, and the icon.
\<close>

definition palette :: "bool \<Rightarrow> (jsstring \<times> jsstring) list" where
  "palette dark =
     (if dark then
        [(js ''--color-light-gray'', js ''#999999''), (js ''--color-gray'', js ''#666666''),
         (js ''--color-white'', js ''#FFFFFF''), (js ''--color-tertiary'', js ''#2A2A2A''),
         (js ''--color-secondary'', js ''#1A1A1A''), (js ''--color-primary'', js ''#0A0A0A'')]
      else
        [(js ''--color-light-gray'', js ''#333333''), (js ''--color-gray'', js ''#666666''),
         (js ''--color-white'', js ''#0A0A0A''), (js ''--color-tertiary'', js ''#E0E0E0''),
         (js ''--color-secondary'', js ''#F5F5F5''), (js ''--color-primary'', js ''#FFFFFF'')])"

definition icon :: "bool \<Rightarrow> jsstring" where
  "icon dark = (if dark then moon else sun)"


section \<open>Form manager (FormManager)\<close>

subsection \<open>The regular expression of the e-mail check\<close>

text \<open>
  The fragment of regular expressions that the source's literal uses: a character
  class (a predicate on code units; a literal character is the class of that one
  character), concatenation and \<open>+\<close>. \<open>regex_test\<close> is \<open>RegExp.prototype.test\<close> for a
  pattern written between \<open>^\<close> and \<open>$\<close> without flags: the match has to span the whole
  string.
\<close>

datatype regex = Class "jschar \<Rightarrow> bool" | Seq regex regex | Plus regex

fun regex_test :: "regex \<Rightarrow> jsstring \<Rightarrow> bool" where
  "regex_test (Class p) w = (case w of [c] \<Rightarrow> p c | _ \<Rightarrow> False)"
| "regex_test (Seq r1 r2) w =
     list_ex (\<lambda>i. regex_test r1 (take i w) \<and> regex_test r2 (drop i w)) [0..<Suc (length w)]"
| "regex_test (Plus r) [] = regex_test r []"
| "regex_test (Plus r) (c # cs) =
     (regex_test r (c # cs) \<or>
      list_ex (\<lambda>i. regex_test r (take i (c # cs)) \<and> regex_test (Plus r) (drop i (c # cs)))
        [1..<Suc (length cs)])"

text \<open>\<open>[^\s@]\<close>, and the literal \<open>/^[^\s@]+@[^\s@]+\.[^\s@]+$/\<close>.\<close>

definition notSpaceAt :: "jschar \<Rightarrow> bool" where
  "notSpaceAt c = (\<not> isWhiteSpace c \<and> c \<noteq> 0x40)"

definition emailRegex :: regex where
  "emailRegex =
     Seq (Plus (Class notSpaceAt))
      (Seq (Class (\<lambda>c. c = 0x40))
        (Seq (Plus (Class notSpaceAt))
          (Seq (Class (\<lambda>c. c = 0x2E))
            (Plus (Class notSpaceAt)))))"

subsection \<open>The page and the manager's fields\<close>

text \<open>
  An element of \<open>formInputs\<close>: besides its class list and \<open>style.transform\<close>, its
  \<open>value\<close>, the default value that \<open>form.reset()\<close> restores, whether the element
  belongs to the contact form, its \<open>type\<close>, whether it has the \<open>required\<close> attribute,
  \<open>style.borderColor\<close>, and its parent node (every input is attached to the
  document; parent nodes are numbered, and none of them lies inside another).
\<close>

record form_input = element +
  inputValue :: jsstring
  defaultValue :: jsstring
  inForm :: bool
  inputType :: jsstring
  required :: bool
  borderColor :: jsstring
  parentNode :: nat

text \<open>
  The submit button: the text of its \<open>.button-text\<close> descendant (\<open>None\<close> when it has
  none), \<open>disabled\<close> and \<open>style.background\<close>.
\<close>

record button =
  buttonText :: "jsstring option"
  disabled :: bool
  background :: jsstring

datatype js_error = TypeError

text \<open>
  Delays are not modelled: any pending timer may be the next to fire, which includes
  every order that the real delays allow. \<open>SubmitDelay\<close> is the 1500 ms timer whose
  callback resolves the promise of \<open>submitForm\<close>; \<open>ButtonReset\<close> is the 2000 ms timer
  of \<open>showSuccessMessage\<close>; \<open>NotificationRemoval\<close> is the 5000 ms timer of
  \<open>showErrorMessage\<close> (the timers of this kind have one delay, so each removes the
  oldest notification still shown).
\<close>

datatype timer = SubmitDelay | ButtonReset | NotificationRemoval

text \<open>
  \<open>contactForm\<close> and \<open>submitButton\<close> are what \<open>getElementById\<close> found (\<open>False\<close> and
  \<open>None\<close> for \<open>null\<close>); \<open>inputErrors p\<close> lists the texts of the \<open>.input-error\<close>
  elements under parent node \<open>p\<close> in document order; \<open>notifications\<close> are the
  \<open>.form-notification\<close> elements appended to the body; \<open>console\<close> holds what
  \<open>console.error\<close> was given.
\<close>

record form_state =
  contactForm :: bool
  submitButton :: "button option"
  formInputs :: "form_input list"
  inputErrors :: "nat \<Rightarrow> jsstring list"
  isSubmitting :: bool
  notifications :: "jsstring list"
  console :: "js_error list"
  timers :: "timer list"

definition updateInput :: "nat \<Rightarrow> (form_input \<Rightarrow> form_input) \<Rightarrow> form_state \<Rightarrow> form_state" where
  "updateInput i f s = s\<lparr>formInputs := (formInputs s)[i := f (formInputs s ! i)]\<rparr>"

subsection \<open>Validation\<close>

definition clearInputError :: "nat \<Rightarrow> form_state \<Rightarrow> form_state" where
  "clearInputError i s =
     (let s1 = updateInput i (\<lambda>inp. inp\<lparr>classList := classList_remove (js ''error'') (classList inp),
                                          borderColor := []\<rparr>) s;
          p = parentNode (formInputs s ! i)
      in s1\<lparr>inputErrors := (inputErrors s1)(p := drop 1 (inputErrors s1 p))\<rparr>)"

definition showInputError :: "nat \<Rightarrow> jsstring \<Rightarrow> form_state \<Rightarrow> form_state" where
  "showInputError i message s =
     (let s1 = clearInputError i s;
          p = parentNode (formInputs s ! i);
          s2 = s1\<lparr>inputErrors := (inputErrors s1)(p := inputErrors s1 p @ [message])\<rparr>
      in updateInput i (\<lambda>inp. inp\<lparr>classList := classList_add (js ''error'') (classList inp),
                                     borderColor := js ''#ff6b6b''\<rparr>) s2)"

definition validateInput :: "nat \<Rightarrow> form_state \<Rightarrow> bool \<times> form_state" where
  "validateInput i s =
     (let input = formInputs s ! i;
          v = trim (inputValue input);
          type = inputType input;
          isRequired = required input;
          s1 = clearInputError i s
      in if isRequired \<and> v = [] then (False, showInputError i (js ''This field is required'') s1)
         else if type = js ''email'' \<and> v \<noteq> [] \<and> \<not> regex_test emailRegex v
           then (False, showInputError i (js ''Please enter a valid email address'') s1)
         else (True, s1))"

text \<open>\<open>validateForm\<close>: the \<open>forEach\<close> over \<open>formInputs\<close>, from the first input on.\<close>

fun validateInputs :: "nat list \<Rightarrow> bool \<Rightarrow> form_state \<Rightarrow> bool \<times> form_state" where
  "validateInputs [] isValid s = (isValid, s)"
| "validateInputs (i # is) isValid s =
     (case validateInput i s of (ok, s1) \<Rightarrow> validateInputs is (if \<not> ok then False else isValid) s1)"

definition validateForm :: "form_state \<Rightarrow> bool \<times> form_state" where
  "validateForm s = validateInputs [0..<length (formInputs s)] True s"

subsection \<open>Submission\<close>

definition updateSubmitButton :: "jsstring \<Rightarrow> bool \<Rightarrow> form_state \<Rightarrow> form_state" where
  "updateSubmitButton text' disabled' s =
     (case submitButton s of
        None \<Rightarrow> s
      | Some b \<Rightarrow>
          s\<lparr>submitButton := Some (b\<lparr>
              buttonText := (case buttonText b of None \<Rightarrow> None | Some old \<Rightarrow> Some text'),
              disabled := disabled',
              background :=
                (if disabled' then js ''linear-gradient(90deg, #666, #999)''
                 else js ''linear-gradient(90deg, var(--color-accent-blue), var(--color-accent-green))'')\<rparr>)\<rparr>)"

text \<open>
  \<open>submitForm\<close> returns a promise whose executor only starts the 1500 ms timer, with
  \<open>resolve\<close> as its callback: nothing in it rejects or throws. A promise is settled one
  way or the other; the function awaiting it continues with that outcome.
\<close>

datatype outcome = Fulfilled | Rejected js_error

definition submitForm :: "form_state \<Rightarrow> form_state" where
  "submitForm s = s\<lparr>timers := timers s @ [SubmitDelay]\<rparr>"

text \<open>
  A function that can throw returns \<open>Inl\<close> of the error and the state at the throw, or
  \<open>Inr\<close> of the state at its end. \<open>showSuccessMessage\<close> reads \<open>this.submitButton.style\<close>
  without the test for \<open>null\<close> that \<open>updateSubmitButton\<close> makes.
\<close>

definition showSuccessMessage :: "form_state \<Rightarrow> js_error \<times> form_state + form_state" where
  "showSuccessMessage s =
     (let s1 = updateSubmitButton (js ''Message Sent!'') True s
      in case submitButton s1 of
           None \<Rightarrow> Inl (TypeError, s1)
         | Some b \<Rightarrow>
             Inr (s1\<lparr>submitButton := Some (b\<lparr>background := js ''linear-gradient(90deg, #00FF88, #00D4FF)''\<rparr>),
                     timers := timers s1 @ [ButtonReset]\<rparr>))"

definition showErrorMessage :: "jsstring \<Rightarrow> form_state \<Rightarrow> form_state" where
  "showErrorMessage message s =
     s\<lparr>notifications := notifications s @ [message], timers := timers s @ [NotificationRemoval]\<rparr>"

fun resetInputs :: "nat list \<Rightarrow> form_state \<Rightarrow> form_state" where
  "resetInputs [] s = s"
| "resetInputs (i # is) s =
     resetInputs is
       (updateInput i (\<lambda>inp. inp\<lparr>transform := js ''scale(1)'', borderColor := js ''transparent''\<rparr>)
         (clearInputError i s))"

definition resetForm :: "form_state \<Rightarrow> js_error \<times> form_state + form_state" where
  "resetForm s =
     (if \<not> contactForm s then Inl (TypeError, s)
      else
        let s1 = s\<lparr>formInputs :=
                   map (\<lambda>inp. if inForm inp then inp\<lparr>inputValue := defaultValue inp\<rparr> else inp)
                     (formInputs s)\<rparr>
        in Inr (resetInputs [0..<length (formInputs s1)] s1))"

text \<open>
  \<open>handleFormSubmission\<close> is an \<open>async\<close> function with one \<open>await\<close>. The call itself runs
  the body up to the \<open>await\<close>; the rest of the body runs when the awaited promise is
  settled, before any other event is handled.
\<close>

definition handleFormSubmission :: "form_state \<Rightarrow> form_state" where
  "handleFormSubmission s =
     (if isSubmitting s then s
      else
        case validateForm s of
          (ok, s1) \<Rightarrow>
            if \<not> ok then s1
            else submitForm (updateSubmitButton (js ''Sending...'') True (s1\<lparr>isSubmitting := True\<rparr>)))"

definition submission_finally :: "form_state \<Rightarrow> form_state" where
  "submission_finally s = updateSubmitButton (js ''Send Message'') False (s\<lparr>isSubmitting := False\<rparr>)"

definition submission_catch :: "js_error \<Rightarrow> form_state \<Rightarrow> form_state" where
  "submission_catch error s =
     submission_finally
       (showErrorMessage (js ''Failed to send message. Please try again.'')
         (s\<lparr>console := console s @ [error]\<rparr>))"

definition handleFormSubmission_resume :: "outcome \<Rightarrow> form_state \<Rightarrow> form_state" where
  "handleFormSubmission_resume settled s =
     (case settled of
        Rejected error \<Rightarrow> submission_catch error s
      | Fulfilled \<Rightarrow>
          (case showSuccessMessage s of
             Inl (error, s1) \<Rightarrow> submission_catch error s1
           | Inr s1 \<Rightarrow>
               (case resetForm s1 of
                  Inl (error, s2) \<Rightarrow> submission_catch error s2
                | Inr s2 \<Rightarrow> submission_finally s2)))"

subsection \<open>Events\<close>

definition animateInput :: "nat \<Rightarrow> bool \<Rightarrow> form_state \<Rightarrow> form_state" where
  "animateInput i focus s =
     updateInput i
       (\<lambda>inp. if focus
          then inp\<lparr>transform := js ''scale(1.02)'', borderColor := js ''var(--color-accent-blue)''\<rparr>
          else if inputValue inp = [] then inp\<lparr>transform := js ''scale(1)'', borderColor := js ''transparent''\<rparr>
          else inp\<lparr>transform := js ''scale(1)''\<rparr>) s"

text \<open>
  What the browser delivers: a submit of the form, a pending timer firing (by its
  position among the pending ones), the user changing the value of an input, and an
  input gaining or losing focus. The listeners exist only when the page has the
  contact form (\<open>init\<close>).
\<close>

datatype event = Submit | Fire nat | Input nat jsstring | Focus nat | Blur nat

definition fire :: "nat \<Rightarrow> form_state \<Rightarrow> form_state" where
  "fire n s =
     (if n < length (timers s) then
        let s1 = s\<lparr>timers := take n (timers s) @ drop (Suc n) (timers s)\<rparr>
        in case timers s ! n of
             SubmitDelay \<Rightarrow> handleFormSubmission_resume Fulfilled s1
           | ButtonReset \<Rightarrow> updateSubmitButton (js ''Send Message'') False s1
           | NotificationRemoval \<Rightarrow> s1\<lparr>notifications := drop 1 (notifications s1)\<rparr>
      else s)"

definition step :: "event \<Rightarrow> form_state \<Rightarrow> form_state" where
  "step e s =
     (case e of
        Submit \<Rightarrow> if contactForm s then handleFormSubmission s else s
      | Fire n \<Rightarrow> fire n s
      | Input i v \<Rightarrow>
          if i < length (formInputs s) then
            let s1 = updateInput i (\<lambda>inp. inp\<lparr>inputValue := v\<rparr>) s
            in if contactForm s then clearInputError i s1 else s1
          else s
      | Focus i \<Rightarrow>
          if i < length (formInputs s) \<and> contactForm s then animateInput i True s else s
      | Blur i \<Rightarrow>
          if i < length (formInputs s) \<and> contactForm s
          then snd (validateInput i (animateInput i False s)) else s)"

fun run :: "event list \<Rightarrow> form_state \<Rightarrow> form_state" where
  "run [] s = s"
| "run (e # es) s = run es (step e s)"

text \<open>The number of simulated submissions in flight: pending promises of \<open>submitForm\<close>.\<close>

definition inFlight :: "form_state \<Rightarrow> nat" where
  "inFlight s = length (filter (\<lambda>t. t = SubmitDelay) (timers s))"

text \<open>
  The constructor followed by \<open>init\<close> on the page it finds: \<open>isSubmitting = false\<close>, and
  no timer of the manager is pending yet.
\<close>

definition FormManager :: "form_state \<Rightarrow> form_state" where
  "FormManager page = page\<lparr>isSubmitting := False, timers := []\<rparr>"

subsection \<open>Pages and notions used in the statements\<close>

text \<open>
  What the regular expression accepts, said without the expression: a local part, an
  \<open>@\<close>, a domain, a dot and a suffix, the three parts non-empty and free of white space
  and of \<open>@\<close>.
\<close>

definition email_shape :: "jsstring \<Rightarrow> bool" where
  "email_shape w \<longleftrightarrow>
     (\<exists>a b c. w = a @ [0x40] @ b @ [0x2E] @ c \<and> a \<noteq> [] \<and> b \<noteq> [] \<and> c \<noteq> [] \<and>
        list_all notSpaceAt a \<and> list_all notSpaceAt b \<and> list_all notSpaceAt c)"

text \<open>The flag \<open>isSubmitting\<close> is set exactly while one promise of \<open>submitForm\<close> is pending.\<close>

definition submission_inv :: "form_state \<Rightarrow> bool" where
  "submission_inv s \<longleftrightarrow> inFlight s = (if isSubmitting s then 1 else 0)"

text \<open>
  A page with the contact form and one required e-mail input holding \<open>v\<close>; \<open>b\<close> is what
  \<open>document.getElementById('submitBtn')\<close> finds.
\<close>

definition email_input :: "jsstring \<Rightarrow> form_input" where
  "email_input v =
     \<lparr>classList = [js ''form-input''], transform = [], inputValue = v, defaultValue = [],
      inForm = True, inputType = js ''email'', required = True, borderColor = [], parentNode = 0\<rparr>"

definition send_button :: button where
  "send_button = \<lparr>buttonText = Some (js ''Send Message''), disabled = False, background = []\<rparr>"

definition contact_page :: "jsstring \<Rightarrow> button option \<Rightarrow> form_state" where
  "contact_page v b =
     \<lparr>contactForm = True, submitButton = b, formInputs = [email_input v], inputErrors = (\<lambda>p. []),
      isSubmitting = False, notifications = [], console = [], timers = []\<rparr>"

section \<open>Pages and notions used in the statements on scrolling\<close>

text \<open>An element is marked visible when its class list has the token \<open>visible\<close>.\<close>

definition marked_visible :: "element \<Rightarrow> bool" where
  "marked_visible element = classList_contains (classList element) (js ''visible'')"

text \<open>
  A window 1000 high on a document 2000 high, scrolled to \<open>y\<close>, in which every fade-in
  element has its top at \<open>t\<close>.
\<close>

definition page_window :: "jsnum \<Rightarrow> jsnum \<Rightarrow> window" where
  "page_window y t =
     \<lparr>scrollY = y, innerHeight = num 1000, scrollHeight = num 2000, rectTop = (\<lambda>i. t)\<rparr>"

text \<open>
  A page with one fade-in element and one floating element whose \<open>data-speed\<close>
  attribute is \<open>v\<close>, as the constructor finds it.
\<close>

definition scroll_page :: "jsstring option \<Rightarrow> animation_state" where
  "scroll_page v =
     \<lparr>fadeElements = [\<lparr>classList = [js ''fade-in''], transform = []\<rparr>],
      floatingElements =
        [\<lparr>classList = [js ''floating-element''], transform = [], dataset_speed = v\<rparr>],
      isAnimating = False, pendingFrames = 0\<rparr>"

definition progress_page :: performance_state where
  "progress_page = \<lparr>progressBar = Some \<lparr>width = []\<rparr>, isAnimationsPaused = False\<rparr>"

section \<open>Properties\<close>

subsection \<open>Strings\<close>

lemma js_Nil_iff: "js s = [] \<longleftrightarrow> s = []"
  by (simp add: js_def)

lemma js_eq_iff: "js s = js t \<longleftrightarrow> s = t"
proof -
  have "inj (of_char :: char \<Rightarrow> jschar)"
  proof (rule injI)
    fix x y :: char
    assume "(of_char x :: jschar) = of_char y"
    then have "unat (of_nat (of_char x) :: jschar) = unat (of_nat (of_char y) :: jschar)"
      by (simp add: of_nat_of_char)
    moreover have "of_char x < (65536::nat)" "of_char y < (65536::nat)"
      using nat_of_char_less_256 [of x] nat_of_char_less_256 [of y] by linarith+
    ultimately have "(of_char x :: nat) = of_char y"
      by (simp add: unat_of_nat)
    then show "x = y" by simp
  qed
  then show ?thesis
    by (simp add: js_def)
qed

subsection \<open>Theme manager\<close>

lemma isDarkTheme_applyTheme: "isDarkTheme (applyTheme s) = isDarkTheme s"
  by (simp add: applyTheme_def Let_def setProperty_def setToggleIcon_def split: list.splits)

lemma localStorage_applyTheme: "localStorage (applyTheme s) = localStorage s"
  by (simp add: applyTheme_def Let_def setProperty_def setToggleIcon_def split: list.splits)

lemma nav_applyTheme: "nav (applyTheme s) = nav s"
  by (simp add: applyTheme_def Let_def setProperty_def setToggleIcon_def split: list.splits)

lemma themeToggles_applyTheme:
  "themeToggles (applyTheme s) =
     (case themeToggles s of [] \<Rightarrow> [] | t # ts \<Rightarrow> icon (isDarkTheme s) # ts)"
  by (simp add: applyTheme_def Let_def setProperty_def setToggleIcon_def icon_def split: list.splits)

text \<open>The six \<open>setProperty\<close> calls of a branch overwrite the inline style with its palette.\<close>

lemma rootStyle_applyTheme:
  "rootStyle (applyTheme s) = rootStyle s ++ map_of (palette (isDarkTheme s))"
  by (simp add: applyTheme_def Let_def setProperty_def setToggleIcon_def palette_def split: list.splits)

lemmas applyTheme_fields =
  isDarkTheme_applyTheme localStorage_applyTheme nav_applyTheme themeToggles_applyTheme
  rootStyle_applyTheme

lemma palette_keys: "map fst (palette b) = map fst (palette c)"
  by (simp add: palette_def)

lemma dom_palette: "dom (map_of (palette b)) = dom (map_of (palette c))"
  using palette_keys [of b c] by (metis dom_map_of_conv_image_fst set_map)

lemma map_add_overwrite: "dom f = dom g \<Longrightarrow> (m ++ f) ++ g = m ++ g"
  by (rule ext) (auto simp: map_add_def split: option.splits)

lemma palette_overwrite:
  "(m ++ map_of (palette b)) ++ map_of (palette c) = m ++ map_of (palette c)"
  by (rule map_add_overwrite [OF dom_palette])

text \<open>Two calls of \<open>toggleTheme\<close> amount to applying and saving the theme of the flag.\<close>

lemma toggleTheme_toggleTheme:
  "toggleTheme (toggleTheme s) = saveThemePreference (applyTheme s)"
  by (rule theme_state.equality)
     (simp_all add: toggleTheme_def saveThemePreference_def applyTheme_fields palette_overwrite
        split: list.splits)

text \<open>Once applied and saved, applying and saving again changes nothing.\<close>

lemma save_apply_idem:
  "saveThemePreference (applyTheme (saveThemePreference (applyTheme s))) =
   saveThemePreference (applyTheme s)"
  by (rule theme_state.equality)
     (simp_all add: saveThemePreference_def applyTheme_fields palette_overwrite split: list.splits)

lemma isDarkTheme_ThemeManager:
  "isDarkTheme (ThemeManager page) \<longleftrightarrow>
     (case localStorage page theme_key of None \<Rightarrow> True | Some v \<Rightarrow> v = [] \<or> v = js ''dark'')"
  by (simp add: ThemeManager_def loadThemePreference_def addThemeToggleButton_def
        isDarkTheme_applyTheme split: option.splits)

lemma ThemeManager_blank_page: "ThemeManager blank_page = blank_page"
  by (simp add: ThemeManager_def loadThemePreference_def addThemeToggleButton_def blank_page_def)

lemma localStorage_toggleTheme:
  "localStorage (toggleTheme s) = (localStorage s)(theme_key \<mapsto> (if isDarkTheme s then js ''light'' else js ''dark''))"
  by (simp add: toggleTheme_def saveThemePreference_def applyTheme_fields)

text \<open>
  C4 (as stated, refuted). A stored string that is neither \<open>"dark"\<close> nor \<open>"light"\<close>, here
  \<open>"blue"\<close>, is not \<open>"light"\<close>, and yet the manager constructed on that storage is not in
  the dark theme: \<open>loadThemePreference\<close> sets the flag to \<open>savedTheme === 'dark'\<close>.
\<close>

theorem loadThemePreference_unrecognized_counterexample:
  "\<not> (js ''blue'' \<noteq> js ''light'' \<longrightarrow> isDarkTheme (ThemeManager (stored_page (js ''blue''))))"
  by (simp add: isDarkTheme_ThemeManager stored_page_def blank_page_def js_eq_iff js_Nil_iff)

text \<open>
  C4 (amended). The theme defaults to dark: after the constructor has run
  \<open>loadThemePreference\<close>, the current theme is dark exactly when the store holds no value
  under the theme key, holds the empty string, or holds \<open>"dark"\<close>. Every other stored
  string, \<open>"light"\<close> among them, yields the light theme.
\<close>

theorem loadThemePreference_default:
  "(isDarkTheme (ThemeManager page) \<longleftrightarrow>
      localStorage page theme_key = None \<or> localStorage page theme_key = Some [] \<or>
      localStorage page theme_key = Some (js ''dark''))
   \<and> (getCurrentTheme (ThemeManager page) = js ''light'' \<longleftrightarrow>
      (\<exists>v. localStorage page theme_key = Some v \<and> v \<noteq> [] \<and> v \<noteq> js ''dark''))"
  by (auto simp: isDarkTheme_ThemeManager getCurrentTheme_def js_eq_iff split: option.splits)

theorem loadThemePreference_default_witness:
  "isDarkTheme (ThemeManager blank_page)
   \<and> isDarkTheme (ThemeManager (stored_page (js ''dark'')))
   \<and> \<not> isDarkTheme (ThemeManager (stored_page (js ''light'')))
   \<and> getCurrentTheme (ThemeManager (stored_page (js ''blue''))) = js ''light''"
  using loadThemePreference_default [of blank_page]
    loadThemePreference_default [of "stored_page (js ''dark'')"]
    loadThemePreference_default [of "stored_page (js ''light'')"]
    loadThemePreference_default [of "stored_page (js ''blue'')"]
  by (simp add: stored_page_def blank_page_def js_eq_iff js_Nil_iff)

text \<open>
  C5 (as stated, refuted). On a first visit (nothing stored, nothing applied) the
  constructor leaves the storage empty; two calls of \<open>toggleTheme\<close> then leave \<open>"dark"\<close>
  stored, so the original persisted value (none) is not restored.
\<close>

theorem toggleTheme_twice_counterexample:
  "\<not> (isDarkTheme (toggleTheme (toggleTheme (ThemeManager blank_page))) = isDarkTheme (ThemeManager blank_page)
      \<and> rootStyle (toggleTheme (toggleTheme (ThemeManager blank_page))) = rootStyle (ThemeManager blank_page)
      \<and> localStorage (toggleTheme (toggleTheme (ThemeManager blank_page))) theme_key =
          localStorage (ThemeManager blank_page) theme_key)"
  by (simp add: ThemeManager_blank_page localStorage_toggleTheme) (simp add: blank_page_def)

text \<open>
  C5 (amended). From every state, two calls of \<open>toggleTheme\<close> restore \<open>isDarkTheme\<close> and
  leave the palette of that flag applied and its name persisted. They restore the whole
  state, palette and persisted string included, whenever the state already carried the
  palette and the name of its flag, which is so after any call of \<open>toggleTheme\<close> and
  after any accepted \<open>setTheme\<close>.
\<close>

theorem toggleTheme_twice:
  "isDarkTheme (toggleTheme (toggleTheme s)) = isDarkTheme s
   \<and> rootStyle (toggleTheme (toggleTheme s)) = rootStyle s ++ map_of (palette (isDarkTheme s))
   \<and> localStorage (toggleTheme (toggleTheme s)) = (localStorage s)(theme_key \<mapsto> getCurrentTheme s)
   \<and> (saveThemePreference (applyTheme s) = s \<longrightarrow> toggleTheme (toggleTheme s) = s)
   \<and> toggleTheme (toggleTheme (toggleTheme s)) = toggleTheme s
   \<and> (theme = js ''dark'' \<or> theme = js ''light'' \<longrightarrow>
        toggleTheme (toggleTheme (setTheme theme s)) = setTheme theme s)"
proof -
  have "toggleTheme (toggleTheme (toggleTheme s)) = saveThemePreference (applyTheme (toggleTheme s))"
    by (rule toggleTheme_toggleTheme)
  also have "\<dots> = toggleTheme s"
    unfolding toggleTheme_def by (rule save_apply_idem)
  finally have thrice: "toggleTheme (toggleTheme (toggleTheme s)) = toggleTheme s" .
  have "theme = js ''dark'' \<or> theme = js ''light'' \<longrightarrow>
        toggleTheme (toggleTheme (setTheme theme s)) = setTheme theme s"
    by (simp add: setTheme_def toggleTheme_toggleTheme save_apply_idem)
  with thrice show ?thesis
    by (simp add: toggleTheme_toggleTheme saveThemePreference_def applyTheme_fields
          getCurrentTheme_def)
qed

theorem toggleTheme_twice_witness:
  "isDarkTheme (toggleTheme (toggleTheme blank_page))
   \<and> localStorage (toggleTheme (toggleTheme blank_page)) theme_key = Some (js ''dark'')
   \<and> toggleTheme (toggleTheme (toggleTheme blank_page)) = toggleTheme blank_page
   \<and> toggleTheme (toggleTheme (setTheme (js ''light'') blank_page)) = setTheme (js ''light'') blank_page"
  using toggleTheme_twice [of blank_page "js ''light''"]
  by (simp add: getCurrentTheme_def) (simp add: blank_page_def)

text \<open>
  C6. For every string other than \<open>"dark"\<close> and \<open>"light"\<close>, \<open>setTheme\<close> returns the state it
  was given: flag, inline palette, icon and storage are untouched. For \<open>"dark"\<close> and for
  \<open>"light"\<close> it sets the flag, overwrites the inline style with the palette of that theme
  and stores the name under the theme key.
\<close>

theorem setTheme_accepts_dark_and_light_only:
  "(theme \<noteq> js ''dark'' \<and> theme \<noteq> js ''light'' \<longrightarrow> setTheme theme s = s)
   \<and> isDarkTheme (setTheme (js ''dark'') s)
   \<and> rootStyle (setTheme (js ''dark'') s) = rootStyle s ++ map_of (palette True)
   \<and> localStorage (setTheme (js ''dark'') s) = (localStorage s)(theme_key \<mapsto> js ''dark'')
   \<and> \<not> isDarkTheme (setTheme (js ''light'') s)
   \<and> rootStyle (setTheme (js ''light'') s) = rootStyle s ++ map_of (palette False)
   \<and> localStorage (setTheme (js ''light'') s) = (localStorage s)(theme_key \<mapsto> js ''light'')"
  by (simp add: setTheme_def saveThemePreference_def applyTheme_fields js_eq_iff)

theorem setTheme_accepts_dark_and_light_only_witness:
  "setTheme (js ''blue'') (stored_page (js ''light'')) = stored_page (js ''light'')
   \<and> localStorage (setTheme (js ''light'') blank_page) theme_key = Some (js ''light'')
   \<and> rootStyle (setTheme (js ''dark'') blank_page) (js ''--color-primary'') = Some (js ''#0A0A0A'')"
  using setTheme_accepts_dark_and_light_only [of "js ''blue''" "stored_page (js ''light'')"]
    setTheme_accepts_dark_and_light_only [of "js ''blue''" blank_page]
  by (simp add: js_eq_iff js_Nil_iff palette_def)

subsection \<open>The e-mail expression\<close>

lemma list_ex_upt: "list_ex P [a..<b] \<longleftrightarrow> (\<exists>i. a \<le> i \<and> i < b \<and> P i)"
  by (auto simp: list_ex_iff)

lemma regex_test_Seq:
  "regex_test (Seq r1 r2) w \<longleftrightarrow> (\<exists>u v. w = u @ v \<and> regex_test r1 u \<and> regex_test r2 v)"
proof
  assume "regex_test (Seq r1 r2) w"
  then obtain i where "regex_test r1 (take i w)" "regex_test r2 (drop i w)"
    unfolding regex_test.simps list_ex_upt by blast
  then show "\<exists>u v. w = u @ v \<and> regex_test r1 u \<and> regex_test r2 v"
    by (metis append_take_drop_id)
next
  assume "\<exists>u v. w = u @ v \<and> regex_test r1 u \<and> regex_test r2 v"
  then obtain u v where w: "w = u @ v" and u: "regex_test r1 u" and v: "regex_test r2 v"
    by blast
  have "0 \<le> length u \<and> length u < Suc (length w)" using w by simp
  moreover have "regex_test r1 (take (length u) w) \<and> regex_test r2 (drop (length u) w)"
    using w u v by simp
  ultimately show "regex_test (Seq r1 r2) w"
    unfolding regex_test.simps list_ex_upt by blast
qed

lemma regex_test_Class: "regex_test (Class p) w \<longleftrightarrow> (\<exists>c. w = [c] \<and> p c)"
  by (cases w rule: list.exhaust; cases "tl w") auto

text \<open>A class under \<open>+\<close> consumes one character at a time.\<close>

lemma Plus_Class_Cons:
  "regex_test (Plus (Class p)) (c # cs) \<longleftrightarrow>
     p c \<and> (cs = [] \<or> regex_test (Plus (Class p)) cs)"
proof (cases cs)
  case Nil
  then show ?thesis by simp
next
  case (Cons d ds)
  have "regex_test (Plus (Class p)) (c # cs) \<longleftrightarrow>
          (\<exists>i. 1 \<le> i \<and> i < Suc (length cs) \<and> regex_test (Class p) (take i (c # cs))
               \<and> regex_test (Plus (Class p)) (drop i (c # cs)))"
    unfolding regex_test.simps(4) list_ex_upt using Cons by simp
  also have "\<dots> \<longleftrightarrow> p c \<and> regex_test (Plus (Class p)) cs"
  proof
    assume "\<exists>i. 1 \<le> i \<and> i < Suc (length cs) \<and> regex_test (Class p) (take i (c # cs))
               \<and> regex_test (Plus (Class p)) (drop i (c # cs))"
    then obtain i where i: "1 \<le> i" "regex_test (Class p) (take i (c # cs))"
        "regex_test (Plus (Class p)) (drop i (c # cs))" and less: "i < Suc (length cs)"
      by blast
    from i(2) obtain ca where ca: "take i (c # cs) = [ca]" "p ca"
      unfolding regex_test_Class by blast
    from arg_cong [OF ca(1), of length] have "min (Suc (length cs)) i = 1"
      by simp
    with less have "i = 1" by simp
    with i show "p c \<and> regex_test (Plus (Class p)) cs" by simp
  next
    assume "p c \<and> regex_test (Plus (Class p)) cs"
    then have "1 \<le> (1::nat) \<and> 1 < Suc (length cs) \<and> regex_test (Class p) (take 1 (c # cs))
               \<and> regex_test (Plus (Class p)) (drop 1 (c # cs))"
      using Cons by simp
    then show "\<exists>i. 1 \<le> i \<and> i < Suc (length cs) \<and> regex_test (Class p) (take i (c # cs))
               \<and> regex_test (Plus (Class p)) (drop i (c # cs))"
      by blast
  qed
  finally show ?thesis using Cons by simp
qed

lemma regex_test_Plus_Class:
  "regex_test (Plus (Class p)) w \<longleftrightarrow> w \<noteq> [] \<and> list_all p w"
proof (induction w)
  case Nil
  show ?case by simp
next
  case (Cons c cs)
  show ?case
    unfolding Plus_Class_Cons Cons.IH by auto
qed

lemma regex_test_emailRegex: "regex_test emailRegex w \<longleftrightarrow> email_shape w"
  unfolding emailRegex_def email_shape_def regex_test_Seq regex_test_Plus_Class regex_test_Class
  by (auto; blast)

lemma email_shape_I:
  "list_all notSpaceAt a \<Longrightarrow> list_all notSpaceAt b \<Longrightarrow> list_all notSpaceAt c \<Longrightarrow>
   a \<noteq> [] \<Longrightarrow> b \<noteq> [] \<Longrightarrow> c \<noteq> [] \<Longrightarrow> email_shape (a @ [0x40] @ b @ [0x2E] @ c)"
  unfolding email_shape_def by blast

lemma email_shape_dot: "email_shape w \<Longrightarrow> 0x2E \<in> set w"
  unfolding email_shape_def by auto

lemma email_shape_hd: "email_shape w \<Longrightarrow> notSpaceAt (hd w)"
  unfolding email_shape_def by (auto simp: neq_Nil_conv)

lemma emailRegex_accepts_a_b_co: "regex_test emailRegex (js ''a@b.co'')"
proof -
  have "email_shape (js ''a'' @ [0x40] @ js ''b'' @ [0x2E] @ js ''co'')"
    by (rule email_shape_I) (simp_all add: js_def notSpaceAt_def isWhiteSpace_def)
  then show ?thesis by (simp add: regex_test_emailRegex js_def)
qed

lemma emailRegex_rejects_a_b: "\<not> regex_test emailRegex (js ''a@b'')"
  using email_shape_dot [of "js ''a@b''"] by (auto simp add: regex_test_emailRegex js_def)

lemma emailRegex_rejects_leading_space: "\<not> regex_test emailRegex (js '' a@b.co'')"
  using email_shape_hd [of "js '' a@b.co''"]
  by (auto simp add: regex_test_emailRegex js_def notSpaceAt_def isWhiteSpace_def)

lemma trim_a_b_co: "trim (js ''a@b.co'') = js ''a@b.co''"
  by (simp add: trim_def js_def isWhiteSpace_def)

lemma trim_a_b: "trim (js ''a@b'') = js ''a@b''"
  by (simp add: trim_def js_def isWhiteSpace_def)

lemma trim_leading_space: "trim (js '' a@b.co'') = js ''a@b.co''"
  by (simp add: trim_def js_def isWhiteSpace_def)

lemma emailRegex_rejects_leading_nbsp: "\<not> regex_test emailRegex (0xA0 # js ''a@b.co'')"
  using email_shape_hd [of "0xA0 # js ''a@b.co''"]
  by (auto simp add: regex_test_emailRegex notSpaceAt_def isWhiteSpace_def)

lemma trim_leading_nbsp: "trim (0xA0 # js ''a@b.co'') = js ''a@b.co''"
  by (simp add: trim_def js_def isWhiteSpace_def)

lemma trim_Nil: "trim [] = []"
  by (simp add: trim_def)

subsection \<open>Validation\<close>

lemma validateInput_result:
  "fst (validateInput i s) \<longleftrightarrow>
     \<not> (required (formInputs s ! i) \<and> trim (inputValue (formInputs s ! i)) = []) \<and>
     \<not> (inputType (formInputs s ! i) = js ''email'' \<and> trim (inputValue (formInputs s ! i)) \<noteq> [] \<and>
        \<not> regex_test emailRegex (trim (inputValue (formInputs s ! i))))"
  by (simp add: validateInput_def Let_def)

lemma contact_page_input:
  "formInputs (contact_page v b) ! 0 = email_input v"
  "inputValue (email_input v) = v"
  "inputType (email_input v) = js ''email''"
  "required (email_input v)"
  by (simp_all add: contact_page_def email_input_def)

text \<open>
  C7 (as stated, refuted). An e-mail field holding \<open>" a@b.co"\<close>, with a space in front, is
  not empty; its value does not match the expression (the first character is white
  space), and \<open>validateInput\<close> accepts it, because the expression is tested on the trimmed
  value. The same holds with a no-break space (U+00A0) in front, which \<open>trim\<close> strips and
  \<open>\s\<close> matches.
\<close>

theorem validateInput_untrimmed_counterexample:
  "\<not> (fst (validateInput 0 (contact_page (js '' a@b.co'') None)) \<longleftrightarrow>
        regex_test emailRegex (inputValue (formInputs (contact_page (js '' a@b.co'') None) ! 0)))
   \<and> \<not> (fst (validateInput 0 (contact_page (0xA0 # js ''a@b.co'') None)) \<longleftrightarrow>
        regex_test emailRegex (inputValue (formInputs (contact_page (0xA0 # js ''a@b.co'') None) ! 0)))"
  by (simp add: validateInput_result contact_page_input trim_leading_space trim_leading_nbsp
        js_Nil_iff emailRegex_accepts_a_b_co emailRegex_rejects_leading_space
        emailRegex_rejects_leading_nbsp)

text \<open>
  C7 (amended). \<open>validateInput\<close> rejects a required field that is empty after trimming,
  and for an e-mail field whose trimmed value is not empty it accepts exactly when the
  trimmed value matches \<open>^[^\s@]+@[^\s@]+\.[^\s@]+$\<close>, that is, has the shape local part,
  \<open>@\<close>, domain, dot, suffix. In a required e-mail field \<open>"a@b.co"\<close> passes, \<open>"a@b"\<close> fails
  and \<open>""\<close> fails.
\<close>

theorem validateInput_required_and_email:
  "(required (formInputs s ! i) \<and> trim (inputValue (formInputs s ! i)) = [] \<longrightarrow>
      \<not> fst (validateInput i s))
   \<and> (inputType (formInputs s ! i) = js ''email'' \<and> trim (inputValue (formInputs s ! i)) \<noteq> [] \<longrightarrow>
        (fst (validateInput i s) \<longleftrightarrow> regex_test emailRegex (trim (inputValue (formInputs s ! i))))
        \<and> (fst (validateInput i s) \<longleftrightarrow> email_shape (trim (inputValue (formInputs s ! i)))))
   \<and> fst (validateInput 0 (contact_page (js ''a@b.co'') b))
   \<and> \<not> fst (validateInput 0 (contact_page (js ''a@b'') b))
   \<and> \<not> fst (validateInput 0 (contact_page [] b))"
proof -
  have "fst (validateInput 0 (contact_page (js ''a@b.co'') b))"
    by (simp add: validateInput_result contact_page_input trim_a_b_co js_Nil_iff
          emailRegex_accepts_a_b_co)
  moreover have "\<not> fst (validateInput 0 (contact_page (js ''a@b'') b))"
    by (simp add: validateInput_result contact_page_input trim_a_b js_Nil_iff
          emailRegex_rejects_a_b)
  moreover have "\<not> fst (validateInput 0 (contact_page [] b))"
    by (simp add: validateInput_result contact_page_input trim_Nil)
  ultimately show ?thesis
    by (auto simp: validateInput_result simp flip: regex_test_emailRegex)
qed

theorem validateInput_required_and_email_witness:
  "required (formInputs (contact_page [0x20] None) ! 0)
   \<and> trim (inputValue (formInputs (contact_page [0x20] None) ! 0)) = []
   \<and> \<not> fst (validateInput 0 (contact_page [0x20] None))
   \<and> inputType (formInputs (contact_page (js '' a@b.co'') None) ! 0) = js ''email''
   \<and> trim (inputValue (formInputs (contact_page (js '' a@b.co'') None) ! 0)) \<noteq> []
   \<and> regex_test emailRegex (trim (inputValue (formInputs (contact_page (js '' a@b.co'') None) ! 0)))
   \<and> fst (validateInput 0 (contact_page (js '' a@b.co'') None))"
proof -
  have "trim [0x20] = []"
    by (simp add: trim_def isWhiteSpace_def)
  then show ?thesis
    using validateInput_required_and_email [of "contact_page [0x20] None" 0 None]
      validateInput_required_and_email [of "contact_page (js '' a@b.co'') None" 0 None]
    by (simp add: contact_page_input trim_leading_space js_Nil_iff emailRegex_accepts_a_b_co)
qed

subsection \<open>Submission\<close>

text \<open>Validation, the button and the input styles leave the flag and the timers alone.\<close>

lemma updateInput_frame [simp]:
  "isSubmitting (updateInput i f s) = isSubmitting s"
  "timers (updateInput i f s) = timers s"
  "console (updateInput i f s) = console s"
  "notifications (updateInput i f s) = notifications s"
  "submitButton (updateInput i f s) = submitButton s"
  "contactForm (updateInput i f s) = contactForm s"
  by (simp_all add: updateInput_def)

lemma clearInputError_frame [simp]:
  "isSubmitting (clearInputError i s) = isSubmitting s"
  "timers (clearInputError i s) = timers s"
  "console (clearInputError i s) = console s"
  "notifications (clearInputError i s) = notifications s"
  "submitButton (clearInputError i s) = submitButton s"
  "contactForm (clearInputError i s) = contactForm s"
  by (simp_all add: clearInputError_def Let_def)

lemma showInputError_frame [simp]:
  "isSubmitting (showInputError i m s) = isSubmitting s"
  "timers (showInputError i m s) = timers s"
  by (simp_all add: showInputError_def Let_def)

lemma validateInput_frame [simp]:
  "isSubmitting (snd (validateInput i s)) = isSubmitting s"
  "timers (snd (validateInput i s)) = timers s"
  by (simp_all add: validateInput_def Let_def)

lemma validateInputs_frame [simp]:
  "isSubmitting (snd (validateInputs is b s)) = isSubmitting s \<and>
   timers (snd (validateInputs is b s)) = timers s"
proof (induction "is" arbitrary: b s)
  case Nil
  show ?case by simp
next
  case (Cons i "is")
  show ?case
    using Cons.IH [of _ "snd (validateInput i s)"] by (simp add: split_beta)
qed

lemma validateForm_frame [simp]:
  "isSubmitting (snd (validateForm s)) = isSubmitting s"
  "timers (snd (validateForm s)) = timers s"
  by (simp_all add: validateForm_def)

lemma updateSubmitButton_frame [simp]:
  "isSubmitting (updateSubmitButton t d s) = isSubmitting s"
  "timers (updateSubmitButton t d s) = timers s"
  "console (updateSubmitButton t d s) = console s"
  "notifications (updateSubmitButton t d s) = notifications s"
  "contactForm (updateSubmitButton t d s) = contactForm s"
  by (simp_all add: updateSubmitButton_def split: option.splits)

lemma animateInput_frame [simp]:
  "isSubmitting (animateInput i f s) = isSubmitting s"
  "timers (animateInput i f s) = timers s"
  by (simp_all add: animateInput_def)

lemma resetInputs_frame [simp]:
  "isSubmitting (resetInputs is s) = isSubmitting s \<and> timers (resetInputs is s) = timers s
   \<and> console (resetInputs is s) = console s \<and> notifications (resetInputs is s) = notifications s"
  by (induction "is" arbitrary: s) simp_all

text \<open>The invariant holds initially and every event keeps it.\<close>

lemma inv_handleFormSubmission:
  "submission_inv s \<Longrightarrow> submission_inv (handleFormSubmission s)"
  by (cases "validateForm s")
     (use validateForm_frame [of s] in
       \<open>auto simp: submission_inv_def handleFormSubmission_def submitForm_def inFlight_def\<close>)

lemma resume_frame:
  "\<not> isSubmitting (handleFormSubmission_resume settled s)"
  "inFlight (handleFormSubmission_resume settled s) = inFlight s"
  by (auto simp: handleFormSubmission_resume_def submission_catch_def submission_finally_def
        showErrorMessage_def showSuccessMessage_def resetForm_def inFlight_def Let_def
      split: outcome.splits sum.splits prod.splits option.splits if_splits)

lemma filter_remove_nth:
  assumes "n < length xs"
  shows "length (filter P (take n xs @ drop (Suc n) xs)) =
         length (filter P xs) - (if P (xs ! n) then 1 else 0)"
proof -
  from assms have "xs = take n xs @ xs ! n # drop (Suc n) xs"
    by (rule id_take_nth_drop)
  then have "length (filter P xs) = length (filter P (take n xs @ xs ! n # drop (Suc n) xs))"
    by simp
  then show ?thesis by simp
qed

lemma inv_fire: "submission_inv s \<Longrightarrow> submission_inv (fire n s)"
proof (cases "n < length (timers s)")
  case False
  assume "submission_inv s"
  with False show ?thesis by (simp add: fire_def)
next
  case True
  assume inv: "submission_inv s"
  let ?s1 = "s\<lparr>timers := take n (timers s) @ drop (Suc n) (timers s)\<rparr>"
  have count: "inFlight ?s1 = inFlight s - (if timers s ! n = SubmitDelay then 1 else 0)"
    unfolding inFlight_def
    using filter_remove_nth [OF True, of "\<lambda>t. t = SubmitDelay"] by simp
  show ?thesis
  proof (cases "timers s ! n")
    case SubmitDelay
    with inv count have "inFlight ?s1 = 0"
      by (simp add: submission_inv_def split: if_splits)
    with True SubmitDelay show ?thesis
      by (simp add: fire_def Let_def submission_inv_def resume_frame)
  next
    case ButtonReset
    with inv count True show ?thesis
      by (simp add: fire_def Let_def submission_inv_def inFlight_def)
  next
    case NotificationRemoval
    with inv count True show ?thesis
      by (simp add: fire_def Let_def submission_inv_def inFlight_def)
  qed
qed

lemma inv_step: "submission_inv s \<Longrightarrow> submission_inv (step e s)"
proof (cases e)
  case Submit
  assume "submission_inv s"
  then show ?thesis using Submit by (simp add: step_def inv_handleFormSubmission)
next
  case (Fire n)
  assume "submission_inv s"
  then show ?thesis using Fire by (simp add: step_def inv_fire)
next
  case (Input i v)
  have "timers (step e s) = timers s \<and> isSubmitting (step e s) = isSubmitting s"
    using Input by (simp add: step_def Let_def)
  moreover assume "submission_inv s"
  ultimately show ?thesis by (simp add: submission_inv_def inFlight_def)
next
  case (Focus i)
  have "timers (step e s) = timers s \<and> isSubmitting (step e s) = isSubmitting s"
    using Focus by (simp add: step_def)
  moreover assume "submission_inv s"
  ultimately show ?thesis by (simp add: submission_inv_def inFlight_def)
next
  case (Blur i)
  have "timers (step e s) = timers s \<and> isSubmitting (step e s) = isSubmitting s"
    using Blur by (simp add: step_def)
  moreover assume "submission_inv s"
  ultimately show ?thesis by (simp add: submission_inv_def inFlight_def)
qed

lemma inv_run: "submission_inv s \<Longrightarrow> submission_inv (run es s)"
  by (induction es arbitrary: s) (simp_all add: inv_step)

lemma inv_FormManager: "submission_inv (FormManager page)"
  by (simp add: submission_inv_def FormManager_def inFlight_def)

text \<open>The first submit of a valid form on the example page, with and without the button.\<close>

lemma validateForm_contact_page:
  "validateForm (FormManager (contact_page (js ''a@b.co'') b)) =
     (True, contact_page (js ''a@b.co'') b)"
  by (simp add: FormManager_def contact_page_def validateForm_def validateInput_def Let_def
        email_input_def trim_a_b_co emailRegex_accepts_a_b_co clearInputError_def updateInput_def
        classList_remove_def js_Nil_iff js_eq_iff fun_upd_idem)

lemma submit_contact_page:
  "step Submit (FormManager (contact_page (js ''a@b.co'') b)) =
     submitForm (updateSubmitButton (js ''Sending...'') True
       ((contact_page (js ''a@b.co'') b)\<lparr>isSubmitting := True\<rparr>))"
proof -
  have "contactForm (FormManager (contact_page (js ''a@b.co'') b))"
       "\<not> isSubmitting (FormManager (contact_page (js ''a@b.co'') b))"
    by (simp_all add: FormManager_def contact_page_def)
  then show ?thesis
    by (simp add: step_def handleFormSubmission_def validateForm_contact_page)
qed

lemma submit_without_button:
  "step Submit (FormManager (contact_page (js ''a@b.co'') None)) =
     (contact_page (js ''a@b.co'') None)\<lparr>isSubmitting := True, timers := [SubmitDelay]\<rparr>"
  unfolding submit_contact_page
  by (simp add: updateSubmitButton_def submitForm_def contact_page_def)

lemma fire_without_button:
  "fire 0 ((contact_page (js ''a@b.co'') None)\<lparr>isSubmitting := True, timers := [SubmitDelay]\<rparr>) =
     (contact_page (js ''a@b.co'') None)
       \<lparr>notifications := [js ''Failed to send message. Please try again.''],
        console := [TypeError], timers := [NotificationRemoval]\<rparr>"
  by (simp add: fire_def contact_page_def handleFormSubmission_resume_def showSuccessMessage_def
        updateSubmitButton_def submission_catch_def submission_finally_def showErrorMessage_def Let_def)

text \<open>
  With the button and the form on the page, the continuation of a fulfilled promise
  never enters the \<open>catch\<close> block: nothing is logged and no notification is shown.
\<close>

lemma resume_succeeds_with_button:
  assumes "submitButton s \<noteq> None" and "contactForm s"
  shows "console (handleFormSubmission_resume Fulfilled s) = console s
         \<and> notifications (handleFormSubmission_resume Fulfilled s) = notifications s"
  using assms
  by (auto simp: handleFormSubmission_resume_def showSuccessMessage_def resetForm_def Let_def
        submission_finally_def updateSubmitButton_def split: option.splits)

text \<open>
  C8. An invocation of \<open>handleFormSubmission\<close> while \<open>isSubmitting\<close> is set returns the
  state unchanged: nothing is validated, no timer is started. Hence, from the
  constructed manager and under every sequence of submits, timer firings and user
  input, at most one simulated submission is in flight, and one is in flight exactly
  while the flag is set.
\<close>

theorem at_most_one_submission_in_flight:
  "(isSubmitting s \<longrightarrow> handleFormSubmission s = s \<and> step Submit s = s)
   \<and> inFlight (run es (FormManager page)) \<le> 1
   \<and> (isSubmitting (run es (FormManager page)) \<longleftrightarrow> inFlight (run es (FormManager page)) = 1)"
proof -
  have "submission_inv (run es (FormManager page))"
    by (rule inv_run [OF inv_FormManager])
  then show ?thesis
    by (simp add: submission_inv_def handleFormSubmission_def step_def split: if_splits)
qed

theorem at_most_one_submission_in_flight_witness:
  "isSubmitting (run [Submit] (FormManager (contact_page (js ''a@b.co'') (Some send_button))))
   \<and> handleFormSubmission (run [Submit] (FormManager (contact_page (js ''a@b.co'') (Some send_button))))
       = run [Submit] (FormManager (contact_page (js ''a@b.co'') (Some send_button)))
   \<and> inFlight (run [Submit, Submit, Submit] (FormManager (contact_page (js ''a@b.co'') (Some send_button)))) = 1"
proof -
  let ?s = "run [Submit] (FormManager (contact_page (js ''a@b.co'') (Some send_button)))"
  have flag: "isSubmitting ?s"
    by (simp add: submit_contact_page submitForm_def)
  then have again: "step Submit ?s = ?s"
    using at_most_one_submission_in_flight
        [of ?s "[]" "contact_page (js ''a@b.co'') (Some send_button)"] by blast
  have "run [Submit, Submit, Submit] (FormManager (contact_page (js ''a@b.co'') (Some send_button))) = ?s"
    using again by simp
  then show ?thesis
    using flag at_most_one_submission_in_flight [of ?s "[Submit]" "contact_page (js ''a@b.co'') (Some send_button)"]
    by simp
qed

text \<open>
  C9 (the code departs from it). On a page with the contact form and a valid e-mail
  input but without the \<open>#submitBtn\<close> element, a submit followed by the firing of the
  submission timer ends in the \<open>catch\<close> block: \<open>showSuccessMessage\<close> throws a
  \<open>TypeError\<close> on \<open>this.submitButton.style\<close>, the error is logged, the failure
  notification is shown, and the form is not reset (the input keeps its value).
\<close>

theorem submission_failure_without_button:
  "run [Submit, Fire 0] (FormManager (contact_page (js ''a@b.co'') None)) =
     (contact_page (js ''a@b.co'') None)
       \<lparr>notifications := [js ''Failed to send message. Please try again.''],
        console := [TypeError], timers := [NotificationRemoval]\<rparr>"
  by (simp add: submit_without_button fire_without_button step_def [of "Fire 0"])

subsection \<open>Fade-in elements\<close>

lemma length_checkForNewAnimations:
  "length (fadeElements (checkForNewAnimations w s)) = length (fadeElements s)"
  by (simp add: checkForNewAnimations_def)

lemma nth_checkForNewAnimations:
  assumes "i < length (fadeElements s)"
  shows "fadeElements (checkForNewAnimations w s) ! i =
     (if marked_visible (fadeElements s ! i) then fadeElements s ! i
      else if js_lt (rectTop w i) (js_mul (innerHeight w) (num (4 / 5)))
        then (fadeElements s ! i)
               \<lparr>classList := classList_add (js ''visible'') (classList (fadeElements s ! i))\<rparr>
        else fadeElements s ! i)"
  using assms by (simp add: checkForNewAnimations_def nth_enumerate_eq marked_visible_def Let_def)

lemma classList_add_present:
  "classList_contains cl tok \<Longrightarrow> classList_add tok cl = cl"
  by (simp add: classList_contains_def classList_add_def)

lemma classList_add_absent:
  "\<not> classList_contains cl tok \<Longrightarrow> classList_add tok cl = cl @ [tok]"
  by (simp add: classList_contains_def classList_add_def)

lemma fadeElements_updateParallax: "fadeElements (updateParallax w s) = fadeElements s"
  by (simp add: updateParallax_def Let_def)

lemma observerCallback_stable:
  "length (fadeElements (observerCallback entries s)) = length (fadeElements s) \<and>
   (i < length (fadeElements s) \<and> marked_visible (fadeElements s ! i) \<longrightarrow>
      fadeElements (observerCallback entries s) ! i = fadeElements s ! i)"
proof (induction entries arbitrary: s)
  case Nil
  show ?case by simp
next
  case (Cons entry entries)
  obtain j b where entry: "entry = (j, b)" by (cases entry)
  let ?s1 = "if b \<and> j < length (fadeElements s)
        then s\<lparr>fadeElements := (fadeElements s)
               [j := (fadeElements s ! j)
                  \<lparr>classList := classList_add (js ''visible'') (classList (fadeElements s ! j))\<rparr>]\<rparr>
        else s"
  have len: "length (fadeElements ?s1) = length (fadeElements s)"
    by simp
  have same: "i < length (fadeElements s) \<and> marked_visible (fadeElements s ! i) \<longrightarrow>
      fadeElements ?s1 ! i = fadeElements s ! i"
    by (cases "i = j") (auto simp: marked_visible_def classList_add_present)
  from Cons.IH [of ?s1] len same show ?case
    unfolding entry observerCallback.simps by metis
qed

lemma animation_step_stable:
  "length (fadeElements (animation_step e s)) = length (fadeElements s) \<and>
   (i < length (fadeElements s) \<and> marked_visible (fadeElements s ! i) \<longrightarrow>
      fadeElements (animation_step e s) ! i = fadeElements s ! i)"
proof (cases e)
  case (Scroll w)
  then show ?thesis
    by (simp add: animation_step_def handleScroll_def Let_def length_checkForNewAnimations
          nth_checkForNewAnimations fadeElements_updateParallax)
next
  case (Resize w)
  then show ?thesis
    by (simp add: animation_step_def handleResize_def fadeElements_updateParallax)
next
  case AnimationFrame
  then show ?thesis
    by (simp add: animation_step_def)
next
  case (Intersection entries)
  then show ?thesis
    using observerCallback_stable [of entries s i] by (simp add: animation_step_def)
qed

lemma animation_run_stable:
  "length (fadeElements (animation_run es s)) = length (fadeElements s) \<and>
   (i < length (fadeElements s) \<and> marked_visible (fadeElements s ! i) \<longrightarrow>
      fadeElements (animation_run es s) ! i = fadeElements s ! i)"
proof (induction es arbitrary: s)
  case Nil
  show ?case by simp
next
  case (Cons e es)
  from Cons.IH [of "animation_step e s"] animation_step_stable [of e s i]
  show ?case by simp
qed

text \<open>
  C1. Once an element of \<open>fadeElements\<close> is marked visible, every later event (scrolls
  with any layout, resizes, animation frames, observer notifications) leaves that
  element as it is, class list included, so the mark is never removed; a call of
  \<open>checkForNewAnimations\<close> on a marked element changes nothing of it, and no call
  changes the number of elements. An unmarked element whose top is above 80% of the
  window height gets the token \<open>visible\<close> appended, once.
\<close>

theorem visible_is_never_removed:
  "length (fadeElements (checkForNewAnimations w s)) = length (fadeElements s)
   \<and> length (fadeElements (animation_run es s)) = length (fadeElements s)
   \<and> (i < length (fadeElements s) \<and> marked_visible (fadeElements s ! i) \<longrightarrow>
        fadeElements (checkForNewAnimations w s) ! i = fadeElements s ! i
        \<and> fadeElements (animation_run es s) ! i = fadeElements s ! i
        \<and> marked_visible (fadeElements (animation_run es s) ! i))
   \<and> (i < length (fadeElements s) \<and> \<not> marked_visible (fadeElements s ! i)
        \<and> js_lt (rectTop w i) (js_mul (innerHeight w) (num (4 / 5))) \<longrightarrow>
        classList (fadeElements (checkForNewAnimations w s) ! i) =
          classList (fadeElements s ! i) @ [js ''visible'']
        \<and> marked_visible (fadeElements (animation_run es (checkForNewAnimations w s)) ! i))"
proof -
  have marks: "i < length (fadeElements s) \<and> \<not> marked_visible (fadeElements s ! i)
        \<and> js_lt (rectTop w i) (js_mul (innerHeight w) (num (4 / 5))) \<longrightarrow>
        classList (fadeElements (checkForNewAnimations w s) ! i) =
          classList (fadeElements s ! i) @ [js ''visible'']
        \<and> marked_visible (fadeElements (checkForNewAnimations w s) ! i)"
    by (simp add: nth_checkForNewAnimations marked_visible_def classList_add_absent
          classList_contains_def)
  from marks animation_run_stable [of es "checkForNewAnimations w s" i]
  have later: "i < length (fadeElements s) \<and> \<not> marked_visible (fadeElements s ! i)
        \<and> js_lt (rectTop w i) (js_mul (innerHeight w) (num (4 / 5))) \<longrightarrow>
        marked_visible (fadeElements (animation_run es (checkForNewAnimations w s)) ! i)"
    by (simp add: length_checkForNewAnimations)
  from marks later animation_run_stable [of es s i] show ?thesis
    by (simp add: length_checkForNewAnimations nth_checkForNewAnimations)
qed

lemma threshold_example:
  "js_lt (num 700) (js_mul (num 1000) (num (4 / 5)))"
  "\<not> js_lt (num 900) (js_mul (num 1000) (num (4 / 5)))"
  by code_simp+

theorem visible_is_never_removed_witness:
  "classList (fadeElements (checkForNewAnimations (page_window (num 0) (num 700)) (scroll_page None)) ! 0)
     = [js ''fade-in'', js ''visible'']
   \<and> fadeElements (animation_run [Scroll (page_window (num 0) (num 900)), AnimationFrame,
          Scroll (page_window (num 0) (num 700))]
        (checkForNewAnimations (page_window (num 0) (num 700)) (scroll_page None))) ! 0
      = \<lparr>classList = [js ''fade-in'', js ''visible''], transform = []\<rparr>"
proof -
  let ?w = "page_window (num 0) (num 700)"
  let ?s = "scroll_page None"
  let ?es = "[Scroll (page_window (num 0) (num 900)), AnimationFrame,
          Scroll (page_window (num 0) (num 700))]"
  have unmarked: "0 < length (fadeElements ?s) \<and> \<not> marked_visible (fadeElements ?s ! 0)
      \<and> js_lt (rectTop ?w 0) (js_mul (innerHeight ?w) (num (4 / 5)))"
    by (simp add: scroll_page_def page_window_def marked_visible_def classList_contains_def
          js_eq_iff threshold_example)
  with visible_is_never_removed [of ?w ?s ?es 0]
  have first: "classList (fadeElements (checkForNewAnimations ?w ?s) ! 0) = [js ''fade-in'', js ''visible'']"
    by (simp add: scroll_page_def)
  then have el: "fadeElements (checkForNewAnimations ?w ?s) ! 0 =
      \<lparr>classList = [js ''fade-in'', js ''visible''], transform = []\<rparr>"
    using unmarked by (simp add: nth_checkForNewAnimations scroll_page_def)
  then have "0 < length (fadeElements (checkForNewAnimations ?w ?s)) \<and>
      marked_visible (fadeElements (checkForNewAnimations ?w ?s) ! 0)"
    by (simp add: length_checkForNewAnimations marked_visible_def classList_contains_def)
       (simp add: scroll_page_def)
  with visible_is_never_removed [of ?w "checkForNewAnimations ?w ?s" ?es 0] first el
  show ?thesis by simp
qed

subsection \<open>Parallax\<close>

lemma nth_updateParallax:
  assumes "i < length (floatingElements s)"
  shows "floatingElements (updateParallax w s) ! i =
     assign_transform
       (js_mul (scrollY w) (js_or (parsed_speed (floatingElements s ! i)) (num (1 / 10))))
       (js_mul (scrollY w) (num (1 / 10)))
       (floatingElements s ! i)"
  using assms by (simp add: updateParallax_def Let_def)

lemma assign_transform_valid:
  "isFinite translateY \<Longrightarrow> isFinite rotate' \<Longrightarrow>
     transform (assign_transform translateY rotate' element) = transform_template translateY rotate'"
  by (simp add: assign_transform_def)

lemma assign_transform_invalid:
  "\<not> (isFinite translateY \<and> isFinite rotate') \<Longrightarrow>
     assign_transform translateY rotate' element = element"
  by (auto simp: assign_transform_def)

lemma parsed_speed_cong:
  "dataset_speed e = dataset_speed e' \<Longrightarrow> parsed_speed e = parsed_speed e'"
  by (simp add: parsed_speed_def)

lemma parseFloat_examples:
  "parseFloat (js ''0'') = Fin False 0"
  "parseFloat (js ''-0'') = Fin True 0"
  "parseFloat (js ''abc'') = NaN"
  "parseFloat (js ''undefined'') = NaN"
  "parseFloat (js ''0.5'') = Fin False (1 / 2)"
  "parseFloat (js ''Infinity'') = Inf False"
  by code_simp+

lemma parallax_examples:
  "transform_template (js_mul (num 10) (num (1 / 10))) (js_mul (num 10) (num (1 / 10))) =
     js ''translateY(1px) rotate(1deg)''"
  "transform_template (js_mul (num 10) (Fin False 0)) (js_mul (num 10) (num (1 / 10))) =
     js ''translateY(0px) rotate(1deg)''"
  "transform_template (js_mul (num 10) (Fin False (1 / 2))) (js_mul (num 10) (num (1 / 10))) =
     js ''translateY(5px) rotate(1deg)''"
  by code_simp+

lemma product_examples:
  "isFinite (js_mul (num 10) (num (1 / 10)))"
  "isFinite (js_mul (num 10) (Fin False (1 / 2)))"
  "\<not> isFinite (js_mul (num 10) (Inf False))"
  "truthy (Fin False (1 / 2))"
  "truthy (Inf False)"
  by code_simp+

lemma scroll_page_floating:
  "length (floatingElements (scroll_page v)) = 1"
  "dataset_speed (floatingElements (scroll_page v) ! 0) = v"
  "transform (floatingElements (scroll_page v) ! 0) = []"
  "scrollY (page_window y t) = y"
  by (simp_all add: scroll_page_def page_window_def)

text \<open>
  C2 (as stated, refuted). A floating element configured with \<open>data-speed="0"\<close> has
  speed \<open>s = 0\<close>; at scroll offset 10 the claim gives \<open>translateY(0px) rotate(1deg)\<close>,
  and \<open>updateParallax\<close> sets \<open>translateY(1px) rotate(1deg)\<close>, since \<open>0 || 0.1\<close> is \<open>0.1\<close>.
\<close>

theorem updateParallax_zero_speed_counterexample:
  "\<not> (transform (floatingElements (updateParallax (page_window (num 10) (num 0))
            (scroll_page (Some (js ''0'')))) ! 0) =
        transform_template
          (js_mul (num 10) (parseFloat (js ''0'')))
          (js_mul (num 10) (num (1 / 10))))"
proof -
  have "js ''translateY(1px) rotate(1deg)'' \<noteq> js ''translateY(0px) rotate(1deg)''"
    by (simp add: js_eq_iff)
  then show ?thesis
    by (simp add: nth_updateParallax scroll_page_floating parsed_speed_def
          parseFloat_examples js_or_def assign_transform_valid product_examples parallax_examples)
qed

text \<open>
  C2 (amended). For every floating element whose \<open>data-speed\<close> attribute parses to a
  number \<open>s\<close> other than zero and \<open>NaN\<close>, and every scroll offset \<open>y\<close> for which \<open>y * s\<close> and
  \<open>y * 0.1\<close> are finite, \<open>updateParallax\<close> sets the transform to exactly
  \<open>translateY(y * s px) rotate(y * 0.1 deg)\<close>; when one of the two products is \<open>NaN\<close> or
  infinite, the string is not a valid transform and the element is left as it was.
  Whenever the products are finite, the transform is a function of the scroll offset
  and the attribute alone: two elements with the same attribute, in any two states
  and at any positions, get the same transform at the same scroll offset.
\<close>

theorem updateParallax_transform:
  "(i < length (floatingElements s) \<and> truthy (parsed_speed (floatingElements s ! i))
      \<and> isFinite (js_mul (scrollY w) (parsed_speed (floatingElements s ! i)))
      \<and> isFinite (js_mul (scrollY w) (num (1 / 10))) \<longrightarrow>
      transform (floatingElements (updateParallax w s) ! i) =
        transform_template
          (js_mul (scrollY w) (parsed_speed (floatingElements s ! i)))
          (js_mul (scrollY w) (num (1 / 10))))
   \<and> (i < length (floatingElements s) \<and> truthy (parsed_speed (floatingElements s ! i))
      \<and> \<not> (isFinite (js_mul (scrollY w) (parsed_speed (floatingElements s ! i)))
            \<and> isFinite (js_mul (scrollY w) (num (1 / 10)))) \<longrightarrow>
      floatingElements (updateParallax w s) ! i = floatingElements s ! i)
   \<and> (i < length (floatingElements s) \<and> j < length (floatingElements s') \<and>
        scrollY w = scrollY w' \<and>
        dataset_speed (floatingElements s ! i) = dataset_speed (floatingElements s' ! j) \<and>
        isFinite (js_mul (scrollY w) (js_or (parsed_speed (floatingElements s ! i)) (num (1 / 10)))) \<and>
        isFinite (js_mul (scrollY w) (num (1 / 10))) \<longrightarrow>
      transform (floatingElements (updateParallax w s) ! i) =
      transform (floatingElements (updateParallax w' s') ! j))"
proof -
  have same: "dataset_speed (floatingElements s ! i) = dataset_speed (floatingElements s' ! j) \<longrightarrow>
      parsed_speed (floatingElements s' ! j) = parsed_speed (floatingElements s ! i)"
    by (auto dest: parsed_speed_cong)
  show ?thesis
    using same
    by (auto simp: nth_updateParallax js_or_def assign_transform_valid assign_transform_invalid)
qed

theorem updateParallax_transform_witness:
  "truthy (parsed_speed (floatingElements (scroll_page (Some (js ''0.5''))) ! 0))
   \<and> transform (floatingElements (updateParallax (page_window (num 10) (num 0))
       (scroll_page (Some (js ''0.5'')))) ! 0) = js ''translateY(5px) rotate(1deg)''
   \<and> transform (floatingElements (updateParallax (page_window (num 10) (num 700))
       ((scroll_page (Some (js ''0.5'')))\<lparr>isAnimating := True\<rparr>)) ! 0) = js ''translateY(5px) rotate(1deg)''
   \<and> truthy (parsed_speed (floatingElements (scroll_page (Some (js ''Infinity''))) ! 0))
   \<and> transform (floatingElements (updateParallax (page_window (num 10) (num 0))
       (scroll_page (Some (js ''Infinity'')))) ! 0) = []"
proof -
  let ?s = "scroll_page (Some (js ''0.5''))"
  let ?w = "page_window (num 10) (num 0)"
  let ?s' = "(scroll_page (Some (js ''0.5'')))\<lparr>isAnimating := True\<rparr>"
  let ?w' = "page_window (num 10) (num 700)"
  let ?t = "scroll_page (Some (js ''Infinity''))"
  have speed: "parsed_speed (floatingElements ?s ! 0) = Fin False (1 / 2)"
    by (simp add: scroll_page_floating parsed_speed_def parseFloat_examples)
  then have hyp: "0 < length (floatingElements ?s) \<and> truthy (parsed_speed (floatingElements ?s ! 0))
      \<and> isFinite (js_mul (scrollY ?w) (parsed_speed (floatingElements ?s ! 0)))
      \<and> isFinite (js_mul (scrollY ?w) (num (1 / 10)))"
    by (simp add: scroll_page_floating product_examples)
  have same: "0 < length (floatingElements ?s) \<and> 0 < length (floatingElements ?s') \<and>
      scrollY ?w = scrollY ?w' \<and>
      dataset_speed (floatingElements ?s ! 0) = dataset_speed (floatingElements ?s' ! 0) \<and>
      isFinite (js_mul (scrollY ?w) (js_or (parsed_speed (floatingElements ?s ! 0)) (num (1 / 10)))) \<and>
      isFinite (js_mul (scrollY ?w) (num (1 / 10)))"
    using hyp by (simp add: js_or_def) (simp add: scroll_page_def page_window_def)
  from hyp updateParallax_transform [of 0 ?s ?w 0 ?s' ?w']
  have first: "transform (floatingElements (updateParallax ?w ?s) ! 0) =
          transform_template (js_mul (scrollY ?w) (parsed_speed (floatingElements ?s ! 0)))
            (js_mul (scrollY ?w) (num (1 / 10)))"
    by blast
  from same updateParallax_transform [of 0 ?s ?w 0 ?s' ?w']
  have second: "transform (floatingElements (updateParallax ?w ?s) ! 0) =
         transform (floatingElements (updateParallax ?w' ?s') ! 0)"
    by blast
  from first second
  have finite: "transform (floatingElements (updateParallax ?w ?s) ! 0) = js ''translateY(5px) rotate(1deg)''
      \<and> transform (floatingElements (updateParallax ?w' ?s') ! 0) = js ''translateY(5px) rotate(1deg)''"
    by (simp add: speed scroll_page_floating parallax_examples)
  have inf: "parsed_speed (floatingElements ?t ! 0) = Inf False"
    by (simp add: scroll_page_floating parsed_speed_def parseFloat_examples)
  then have hyp': "0 < length (floatingElements ?t) \<and> truthy (parsed_speed (floatingElements ?t ! 0))
      \<and> \<not> (isFinite (js_mul (scrollY ?w) (parsed_speed (floatingElements ?t ! 0)))
            \<and> isFinite (js_mul (scrollY ?w) (num (1 / 10))))"
    by (simp add: scroll_page_floating product_examples)
  with updateParallax_transform [of 0 ?t ?w]
  have "floatingElements (updateParallax ?w ?t) ! 0 = floatingElements ?t ! 0"
    by blast
  with finite hyp hyp' show ?thesis
    by (simp add: scroll_page_floating)
qed

text \<open>
  C10. The speed \<open>0.1\<close> is used not only when \<open>data-speed\<close> is absent but whenever the
  attribute parses to \<open>NaN\<close> or to zero (\<open>"0"\<close>, \<open>"-0"\<close>, a non-numeric string): the parsed
  value is replaced through \<open>||\<close>, and at every scroll offset \<open>y\<close> with \<open>y * 0.1\<close> finite
  the transform set is \<open>translateY(y * 0.1 px) rotate(y * 0.1 deg)\<close>.
  \<open>setupFloatingElements\<close> keeps the attribute \<open>"0"\<close> (a non-empty string is truthy), so
  a configured speed of 0 reaches \<open>updateParallax\<close> and is treated there as \<open>0.1\<close>.
\<close>

theorem parallax_speed_default:
  "(dataset_speed (floatingElements s ! i) = None \<or>
    parsed_speed (floatingElements s ! i) = NaN \<or>
    parsed_speed (floatingElements s ! i) = Fin False 0 \<or>
    parsed_speed (floatingElements s ! i) = Fin True 0 \<longrightarrow>
      js_or (parsed_speed (floatingElements s ! i)) (num (1 / 10)) = num (1 / 10))
   \<and> (i < length (floatingElements s) \<and>
      (dataset_speed (floatingElements s ! i) = None \<or>
       parsed_speed (floatingElements s ! i) = NaN \<or>
       parsed_speed (floatingElements s ! i) = Fin False 0 \<or>
       parsed_speed (floatingElements s ! i) = Fin True 0) \<and>
      isFinite (js_mul (scrollY w) (num (1 / 10))) \<longrightarrow>
      transform (floatingElements (updateParallax w s) ! i) =
        transform_template (js_mul (scrollY w) (num (1 / 10))) (js_mul (scrollY w) (num (1 / 10))))
   \<and> parseFloat (js ''0'') = Fin False 0
   \<and> parseFloat (js ''abc'') = NaN
   \<and> floatingElements (AnimationManager (scroll_page (Some (js ''0'')))) =
       floatingElements (scroll_page (Some (js ''0'')))
   \<and> (isFinite (js_mul (scrollY w) (num (1 / 10))) \<longrightarrow>
      transform (floatingElements (updateParallax w (AnimationManager (scroll_page (Some (js ''0''))))) ! 0) =
        transform_template (js_mul (scrollY w) (num (1 / 10))) (js_mul (scrollY w) (num (1 / 10))))"
proof -
  have absent: "dataset_speed e = None \<Longrightarrow> parsed_speed e = NaN" for e
    by (simp add: parsed_speed_def parseFloat_examples)
  have kept: "floatingElements (AnimationManager (scroll_page (Some (js ''0'')))) =
       floatingElements (scroll_page (Some (js ''0'')))"
    by (simp add: AnimationManager_def setupFloatingElements_def scroll_page_def js_Nil_iff)
  have "isFinite (js_mul (scrollY w) (num (1 / 10))) \<longrightarrow>
      transform (floatingElements (updateParallax w (AnimationManager (scroll_page (Some (js ''0''))))) ! 0) =
        transform_template (js_mul (scrollY w) (num (1 / 10))) (js_mul (scrollY w) (num (1 / 10)))"
    by (simp add: nth_updateParallax kept scroll_page_floating parsed_speed_def
          parseFloat_examples js_or_def assign_transform_valid)
  with kept show ?thesis
    by (auto simp: nth_updateParallax js_or_def parseFloat_examples assign_transform_valid
          dest: absent)
qed

theorem parallax_speed_default_witness:
  "isFinite (js_mul (num 10) (num (1 / 10)))
   \<and> transform (floatingElements (updateParallax (page_window (num 10) (num 0))
       (scroll_page (Some (js ''abc'')))) ! 0) = js ''translateY(1px) rotate(1deg)''
   \<and> transform (floatingElements (updateParallax (page_window (num 10) (num 0))
       (scroll_page None)) ! 0) = js ''translateY(1px) rotate(1deg)''
   \<and> transform (floatingElements (updateParallax (page_window (num 10) (num 0))
       (AnimationManager (scroll_page (Some (js ''0''))))) ! 0) = js ''translateY(1px) rotate(1deg)''"
  using parallax_speed_default [of "scroll_page (Some (js ''abc''))" 0 "page_window (num 10) (num 0)"]
    parallax_speed_default [of "scroll_page None" 0 "page_window (num 10) (num 0)"]
  by (simp add: scroll_page_floating parsed_speed_def parseFloat_examples parallax_examples
        product_examples)

subsection \<open>Progress bar\<close>

lemma progress_examples:
  "Number_toString (js_mul (js_div (num 0) (js_sub (num 2000) (num 1000))) (num 100)) = js ''0''"
  "Number_toString (js_mul (js_div (num 500) (js_sub (num 2000) (num 1000))) (num 100)) = js ''50''"
  "Number_toString (js_mul (js_div (num 1500) (js_sub (num 2000) (num 1000))) (num 100)) = js ''150''"
  "Number_toString (js_mul (js_div (num (- 500)) (js_sub (num 2000) (num 1000))) (num 100)) = js ''-50''"
  "Number_toString (js_mul (js_div (num 0) (js_sub (num 1000) (num 1000))) (num 100)) = js ''NaN''"
  "Number_toString (js_mul (js_div (num 500) (js_sub (num 1000) (num 1000))) (num 100)) = js ''Infinity''"
  by code_simp+

lemma progress_valid_examples:
  "valid_width_percent (js_mul (js_div (num 0) (js_sub (num 2000) (num 1000))) (num 100))"
  "valid_width_percent (js_mul (js_div (num 500) (js_sub (num 2000) (num 1000))) (num 100))"
  "valid_width_percent (js_mul (js_div (num 1500) (js_sub (num 2000) (num 1000))) (num 100))"
  "\<not> valid_width_percent (js_mul (js_div (num (- 500)) (js_sub (num 2000) (num 1000))) (num 100))"
  "\<not> valid_width_percent (js_mul (js_div (num 0) (js_sub (num 1000) (num 1000))) (num 100))"
  "\<not> valid_width_percent (js_mul (js_div (num 500) (js_sub (num 1000) (num 1000))) (num 100))"
  by code_simp+

lemma js_append: "js a @ js b = js (a @ b)"
  by (simp add: js_def)

lemma updateProgressBar_valid:
  assumes "progressBar s = Some bar"
    and "valid_width_percent
           (js_mul (js_div (scrollY w) (js_sub (scrollHeight w) (innerHeight w))) (num 100))"
  shows "progressBar (updateProgressBar w s) =
     Some (bar\<lparr>width :=
       Number_toString
         (js_mul (js_div (scrollY w) (js_sub (scrollHeight w) (innerHeight w))) (num 100))
       @ js ''%''\<rparr>)"
  using assms by (simp add: updateProgressBar_def assign_width_def Let_def)

lemma updateProgressBar_invalid:
  assumes "progressBar s = Some bar"
    and "\<not> valid_width_percent
           (js_mul (js_div (scrollY w) (js_sub (scrollHeight w) (innerHeight w))) (num 100))"
  shows "updateProgressBar w s = s"
proof -
  from assms have "updateProgressBar w s = s\<lparr>progressBar := progressBar s\<rparr>"
    by (simp add: updateProgressBar_def assign_width_def Let_def)
  then show ?thesis by simp
qed

lemma page_window_fields:
  "scrollY (page_window y t) = y"
  "scrollHeight (page_window y t) = num 2000"
  "innerHeight (page_window y t) = num 1000"
  "scrollY ((page_window y t)\<lparr>scrollHeight := h\<rparr>) = y"
  "scrollHeight ((page_window y t)\<lparr>scrollHeight := h\<rparr>) = h"
  "innerHeight ((page_window y t)\<lparr>scrollHeight := h\<rparr>) = num 1000"
  by (simp_all add: page_window_def)

lemma progress_page_bar: "progressBar progress_page = Some \<lparr>width = []\<rparr>"
  by (simp add: progress_page_def)

text \<open>
  C3 (as stated, refuted). With \<open>H = 2000\<close> and \<open>V = 1000\<close>, at scroll offset \<open>y = -500\<close>
  the claim gives the width \<open>"-50%"\<close>; that string is not a valid width, and the bar
  keeps the width it had (here none). With \<open>H = V = 1000\<close> and \<open>y = 0\<close> the claim gives
  \<open>"NaN%"\<close>, and again the bar keeps its width.
\<close>

theorem updateProgressBar_invalid_width_counterexample:
  "\<not> (progressBar (updateProgressBar (page_window (num (- 500)) (num 0)) progress_page) =
        Some \<lparr>width =
          Number_toString (js_mul (js_div (num (- 500)) (js_sub (num 2000) (num 1000))) (num 100))
          @ js ''%''\<rparr>)
   \<and> \<not> (progressBar (updateProgressBar ((page_window (num 0) (num 0))\<lparr>scrollHeight := num 1000\<rparr>)
            progress_page) =
        Some \<lparr>width =
          Number_toString (js_mul (js_div (num 0) (js_sub (num 1000) (num 1000))) (num 100))
          @ js ''%''\<rparr>)"
proof -
  have "updateProgressBar (page_window (num (- 500)) (num 0)) progress_page = progress_page"
    by (rule updateProgressBar_invalid [OF progress_page_bar])
       (simp add: page_window_fields progress_valid_examples)
  moreover have "updateProgressBar ((page_window (num 0) (num 0))\<lparr>scrollHeight := num 1000\<rparr>)
      progress_page = progress_page"
    by (rule updateProgressBar_invalid [OF progress_page_bar])
       (simp add: page_window_fields progress_valid_examples)
  ultimately show ?thesis
    by (simp add: progress_page_bar js_Nil_iff)
qed

text \<open>
  C3 (amended). For every scroll offset \<open>y\<close>, document height \<open>H\<close> and window height \<open>V\<close>
  for which \<open>(y / (H - V)) * 100\<close> is finite and not negative, \<open>updateProgressBar\<close> sets the
  width of the progress bar to that number of percent, and nothing clamps it from
  above; with \<open>H = 2000\<close> and \<open>V = 1000\<close> the width is \<open>"0%"\<close> at \<open>y = 0\<close>, \<open>"50%"\<close> at \<open>y = 500\<close>
  and \<open>"150%"\<close> at \<open>y = 1500\<close>. When the number is negative, \<open>NaN\<close> or infinite (as at
  \<open>y = -500\<close>, or when \<open>H = V\<close>), the string assigned is not a valid width and nothing
  changes; without the bar the call does nothing.
\<close>

theorem updateProgressBar_width:
  "(progressBar s = None \<longrightarrow> updateProgressBar w s = s)
   \<and> (progressBar s = Some bar \<and>
       isFinite (js_mul (js_div (scrollY w) (js_sub (scrollHeight w) (innerHeight w))) (num 100)) \<and>
       \<not> js_lt (js_mul (js_div (scrollY w) (js_sub (scrollHeight w) (innerHeight w))) (num 100))
            (Fin False 0) \<longrightarrow>
      progressBar (updateProgressBar w s) =
        Some (bar\<lparr>width :=
          Number_toString
            (js_mul (js_div (scrollY w) (js_sub (scrollHeight w) (innerHeight w))) (num 100))
          @ js ''%''\<rparr>))
   \<and> (progressBar s = Some bar \<and>
       \<not> (isFinite (js_mul (js_div (scrollY w) (js_sub (scrollHeight w) (innerHeight w))) (num 100)) \<and>
          \<not> js_lt (js_mul (js_div (scrollY w) (js_sub (scrollHeight w) (innerHeight w))) (num 100))
               (Fin False 0)) \<longrightarrow>
      updateProgressBar w s = s)
   \<and> progressBar (updateProgressBar (page_window (num 0) t) progress_page) = Some \<lparr>width = js ''0%''\<rparr>
   \<and> progressBar (updateProgressBar (page_window (num 500) t) progress_page) = Some \<lparr>width = js ''50%''\<rparr>
   \<and> progressBar (updateProgressBar (page_window (num 1500) t) progress_page) = Some \<lparr>width = js ''150%''\<rparr>
   \<and> updateProgressBar (page_window (num (- 500)) t) progress_page = progress_page
   \<and> updateProgressBar ((page_window (num 0) t)\<lparr>scrollHeight := num 1000\<rparr>) progress_page = progress_page
   \<and> updateProgressBar ((page_window (num 500) t)\<lparr>scrollHeight := num 1000\<rparr>) progress_page = progress_page"
proof -
  have none: "progressBar s = None \<longrightarrow> updateProgressBar w s = s"
    by (simp add: updateProgressBar_def)
  have valid: "progressBar (updateProgressBar (page_window y t) progress_page) =
      Some \<lparr>width = Number_toString (js_mul (js_div y (js_sub (num 2000) (num 1000))) (num 100)) @ js ''%''\<rparr>"
    if "valid_width_percent (js_mul (js_div y (js_sub (num 2000) (num 1000))) (num 100))" for y
    using updateProgressBar_valid [OF progress_page_bar, of "page_window y t"] that
    by (simp add: page_window_fields)
  have invalid: "updateProgressBar w' progress_page = progress_page"
    if "\<not> valid_width_percent
           (js_mul (js_div (scrollY w') (js_sub (scrollHeight w') (innerHeight w'))) (num 100))" for w'
    using updateProgressBar_invalid [OF progress_page_bar that] .
  have ex: "progressBar (updateProgressBar (page_window (num 0) t) progress_page) = Some \<lparr>width = js ''0%''\<rparr>"
    "progressBar (updateProgressBar (page_window (num 500) t) progress_page) = Some \<lparr>width = js ''50%''\<rparr>"
    "progressBar (updateProgressBar (page_window (num 1500) t) progress_page) = Some \<lparr>width = js ''150%''\<rparr>"
    by (simp_all add: valid progress_valid_examples progress_examples js_append)
  have kept: "updateProgressBar (page_window (num (- 500)) t) progress_page = progress_page"
    "updateProgressBar ((page_window (num 0) t)\<lparr>scrollHeight := num 1000\<rparr>) progress_page = progress_page"
    "updateProgressBar ((page_window (num 500) t)\<lparr>scrollHeight := num 1000\<rparr>) progress_page = progress_page"
    by (rule invalid, simp add: page_window_fields progress_valid_examples)+
  from none ex kept show ?thesis
    using updateProgressBar_valid [of s bar w] updateProgressBar_invalid [of s bar w]
    unfolding valid_width_percent_def by blast
qed

theorem updateProgressBar_width_witness:
  "progressBar progress_page = Some \<lparr>width = []\<rparr>
   \<and> valid_width_percent (js_mul (js_div (num 500) (js_sub (num 2000) (num 1000))) (num 100))
   \<and> progressBar (updateProgressBar (page_window (num 500) (num 0)) progress_page) =
       Some \<lparr>width = js ''50%''\<rparr>
   \<and> \<not> valid_width_percent (js_mul (js_div (num (- 500)) (js_sub (num 2000) (num 1000))) (num 100))
   \<and> progressBar (updateProgressBar (page_window (num (- 500)) (num 0)) progress_page) =
       Some \<lparr>width = []\<rparr>"
proof -
  let ?w = "page_window (num 500) (num 0)"
  let ?v = "page_window (num (- 500)) (num 0)"
  let ?P = "\<lambda>w. js_mul (js_div (scrollY w) (js_sub (scrollHeight w) (innerHeight w))) (num 100)"
  have ok: "valid_width_percent (?P ?w)" and bad: "\<not> valid_width_percent (?P ?v)"
    by (simp_all add: page_window_fields progress_valid_examples)
  from ok updateProgressBar_width [where s = progress_page and bar = "\<lparr>width = []\<rparr>" and w = ?w]
    progress_page_bar
  have "progressBar (updateProgressBar ?w progress_page) =
        Some (\<lparr>width = []\<rparr>\<lparr>width := Number_toString (?P ?w) @ js ''%''\<rparr>)"
    unfolding valid_width_percent_def by blast
  moreover
  from bad updateProgressBar_width [where s = progress_page and bar = "\<lparr>width = []\<rparr>" and w = ?v]
    progress_page_bar
  have "updateProgressBar ?v progress_page = progress_page"
    unfolding valid_width_percent_def by blast
  ultimately show ?thesis
    using ok bad
    by (simp add: page_window_fields progress_examples js_append progress_page_bar)
qed

end
